theory Spec2Isabelle
  imports Main "HOL-Library.Sublist"
begin

section \<open>JavaScript strings\<close>

text \<open>
  Strings are byte strings (UTF-8).  \<open>toLowerCase\<close> maps the ASCII letters \<open>A\<close> to \<open>Z\<close> to
  \<open>a\<close> to \<open>z\<close> and leaves every other byte alone: case mapping outside ASCII is not
  modelled.  No character outside ASCII has an ASCII letter other than \<open>i\<close> and \<open>k\<close> in
  its lower-case form, so a test for an ASCII word without these two letters in the
  lower-cased string is not affected; the lower-cased string itself is, when it is
  printed.  \<open>str_includes\<close> is \<open>String.prototype.includes\<close>, \<open>startsWith\<close> is
  \<open>String.prototype.startsWith\<close>, and \<open>or_else a d\<close> is \<open>a || d\<close> for a string \<open>a\<close> that may
  be undefined.
\<close>

definition lower_char :: "char \<Rightarrow> char" where
  "lower_char c =
     (let n = (of_char c :: nat)
      in if 65 \<le> n \<and> n \<le> 90 then char_of (n + 32) else c)"

definition toLowerCase :: "string \<Rightarrow> string" where
  "toLowerCase s = map lower_char s"

definition startsWith :: "string \<Rightarrow> string \<Rightarrow> bool" where
  "startsWith s p = prefix p s"

fun str_includes :: "string \<Rightarrow> string \<Rightarrow> bool" where
  "str_includes [] sub = (sub = [])"
| "str_includes (c # cs) sub = (startsWith (c # cs) sub \<or> str_includes cs sub)"

definition or_else :: "string option \<Rightarrow> string \<Rightarrow> string" where
  "or_else a d = (case a of None \<Rightarrow> d | Some v \<Rightarrow> if v = [] then d else v)"

definition nl :: string where
  "nl = [CHR 0x0A]"

text \<open>Decimal rendering of an integer, as a template literal prints a bigint or an integer
  number of magnitude below \<open>10^21\<close>.\<close>

function show_nat :: "nat \<Rightarrow> string" where
  "show_nat n = (if n < 10 then [char_of (48 + n)] else show_nat (n div 10) @ [char_of (48 + n mod 10)])"
  by pat_completeness auto
termination
  by (relation "measure id") auto

definition show_int :: "int \<Rightarrow> string" where
  "show_int i = (if i < 0 then ''-'' @ show_nat (nat (- i)) else show_nat (nat i))"

section \<open>JavaScript values\<close>

text \<open>
  The answer of the elicitation channel is typed \<open>any\<close>; the handlers only test it for
  truthiness and read one property of it.  \<open>get_prop\<close> is the property read \<open>v.k\<close> for the
  keys the handlers use (\<open>approved\<close>, \<open>confirm\<close>), which no primitive wrapper defines; on
  \<open>null\<close> and \<open>undefined\<close> JavaScript throws, and the handlers read the property only
  after the value has tested truthy.
\<close>

datatype jsval =
    JUndefined
  | JNull
  | JBool bool
  | JNum int
  | JStr string
  | JObj "(string \<times> jsval) list"

fun truthy :: "jsval \<Rightarrow> bool" where
  "truthy JUndefined = False"
| "truthy JNull = False"
| "truthy (JBool b) = b"
| "truthy (JNum n) = (n \<noteq> 0)"
| "truthy (JStr s) = (s \<noteq> [])"
| "truthy (JObj kvs) = True"

fun get_prop :: "jsval \<Rightarrow> string \<Rightarrow> jsval" where
  "get_prop (JObj kvs) k = (case map_of kvs k of None \<Rightarrow> JUndefined | Some v \<Rightarrow> v)"
| "get_prop v k = JUndefined"

section \<open>Configuration state and the safety wrapper (config/midl-config.ts)\<close>

datatype connector = Connector string

record network_cfg =
  net_id :: string
  net_network :: string
  net_explorerUrl :: "string option"

record account =
  account_address :: string
  account_publicKey :: string

record midl_state =
  connection :: "connector option"
  network :: "network_cfg option"
  accounts :: "account list option"

text \<open>
  \<open>validateConfig\<close> throws (\<open>Inl\<close> of the error message) or returns normally (\<open>Inr ()\<close>).
\<close>

definition validateConfig :: "midl_state \<Rightarrow> string + unit" where
  "validateConfig state =
     (case connection state of
        None \<Rightarrow> Inl ''MIDL MCP Server requires a pre-connected wallet configuration.''
      | Some _ \<Rightarrow>
         (case network state of
            None \<Rightarrow> Inl ''No network configured in MIDL state.''
          | Some net \<Rightarrow>
             (let networkName = toLowerCase (net_network net);
                  isTestnet = (str_includes networkName ''testnet'' \<or> str_includes networkName ''regtest'')
              in if \<not> isTestnet
                 then Inl (''MIDL MCP Server is currently restricted to testnet/regtest. Detected network: ''
                           @ networkName)
                 else Inr ())))"

record MidlConfigWrapper =
  config :: midl_state

text \<open>The constructor stores the configuration and runs \<open>validateConfig\<close>.\<close>

definition new_MidlConfigWrapper :: "midl_state \<Rightarrow> string + MidlConfigWrapper" where
  "new_MidlConfigWrapper cfg =
     (case validateConfig cfg of
        Inl e \<Rightarrow> Inl e
      | Inr _ \<Rightarrow> Inr \<lparr>config = cfg\<rparr>)"

definition getConfig :: "MidlConfigWrapper \<Rightarrow> midl_state" where
  "getConfig w = config w"


section \<open>Configuration factory (config/factory.ts)\<close>

text \<open>
  The part of \<open>createMidlConfigFromEnv\<close> that turns the \<open>MIDL_NETWORK\<close> environment
  variable into the single entry of the \<open>networks\<close> array handed to \<open>createConfig\<close>.
\<close>

definition networkId_of_env :: "string option \<Rightarrow> string" where
  "networkId_of_env v = (case v of None \<Rightarrow> ''testnet'' | Some s \<Rightarrow> if s = [] then ''testnet'' else s)"

definition bitcoinNetwork :: "string \<Rightarrow> string" where
  "bitcoinNetwork networkId =
     (if networkId = ''mainnet'' then ''bitcoin''
      else if networkId = ''regtest'' then ''regtest''
      else ''testnet'')"

definition explorerUrl :: "string \<Rightarrow> string" where
  "explorerUrl networkId =
     (if networkId = ''regtest'' then ''https://mempool.regtest.midl.xyz/tx/''
      else if networkId = ''testnet4'' then ''https://mempool.space/testnet4/tx/''
      else if networkId = ''signet'' then ''https://mempool.space/signet/tx/''
      else ''https://mempool.space/'' @ (if networkId = ''mainnet'' then [] else networkId @ ''/'') @ ''tx/'')"

definition factory_networks :: "string option \<Rightarrow> network_cfg list" where
  "factory_networks env_network =
     (let networkId = networkId_of_env env_network
      in [\<lparr>net_id = networkId, net_network = bitcoinNetwork networkId,
           net_explorerUrl = Some (explorerUrl networkId)\<rparr>])"


section \<open>Calls to the collaborators\<close>

text \<open>
  An awaited call either rejects with an error (\<open>Inl\<close> of its message) or resolves to a
  value (\<open>Inr\<close>).  The collaborators reject with \<open>Error\<close> objects, and so do the \<open>throw\<close>
  statements and the failing property reads of the handlers; an exception is therefore
  represented by its message, which is what the \<open>catch\<close> blocks read
  (\<open>error.message\<close>).  A rejection with \<open>null\<close> or \<open>undefined\<close>, on which that read
  would itself throw, is outside this model.  A run of a handler is the list of calls it made to its collaborators,
  in order, together with how it ended: \<open>Inl\<close> when an exception left the handler, \<open>Inr\<close>
  of the value it returned.
\<close>

type_synonym 'a outcome = "string + 'a"

record tool_result =
  content_text :: string
  isError :: bool

definition ok_result :: "string \<Rightarrow> tool_result" where
  "ok_result t = \<lparr>content_text = t, isError = False\<rparr>"

definition error_result :: "string \<Rightarrow> tool_result" where
  "error_result t = \<lparr>content_text = t, isError = True\<rparr>"

record elicitation =
  el_method :: string
  el_mode :: string
  el_message :: string
  el_property :: string
  el_description :: string
  el_required :: "string list"

record sign_request =
  sign_psbt :: string
  signInputs :: "(string \<times> nat list) list"
  sign_publish :: bool

record evm_transaction =
  tx_type :: string
  tx_to :: "string option"
  tx_data :: string
  tx_value :: "int option"
  tx_chainId :: "int option"

record intention =
  evmTransaction :: evm_transaction
  meta_contractName :: "string option option"

record btc_tx =
  tx_id :: string
  tx_hex :: string

record finalized =
  fin_psbt :: string
  fin_tx :: "btc_tx option"

datatype SignMessageProtocol = Bip322 | Ecdsa

datatype rpc_param = HexList "string list" | HexString string

record rpc_request =
  rpc_method :: string
  rpc_params :: "rpc_param list"

record rpc_options =
  retryCount :: nat

record verify_body =
  compiler_version :: string
  source_code :: string
  is_optimization_enabled :: bool
  optimization_runs :: nat
  contract_name :: "string option"
  evm_version :: string
  autodetect_constructor_args :: bool
  license_type :: string

datatype event =
    ElicitationCreate elicitation
  | SignPSBT sign_request
  | BroadcastTransaction string
  | AddTxIntention intention
  | FinalizeBTCTransaction "intention list" "int option"
  | SignIntention intention "intention list" string SignMessageProtocol
  | ClientRequest rpc_request rpc_options
  | WaitForTransactionReceipt string nat
  | GetTransactionCount string
  | Fetch string
  | FetchPost string verify_body
  | SolcCompile "(string \<times> string) list"
  | GetFeeRate
  | GetUTXOs string

type_synonym 'a run = "event list \<times> 'a outcome"

definition return :: "'a \<Rightarrow> 'a run" where
  "return v = ([], Inr v)"

definition throw :: "string \<Rightarrow> 'a run" where
  "throw e = ([], Inl e)"

definition call :: "event \<Rightarrow> 'a outcome \<Rightarrow> 'a run" where
  "call ev out = ([ev], out)"

text \<open>\<open>prepend t r\<close>: the run \<open>r\<close> after the calls \<open>t\<close> have been made.\<close>

definition prepend :: "event list \<Rightarrow> 'a run \<Rightarrow> 'a run" where
  "prepend t r = (t @ fst r, snd r)"

definition and_then :: "'a run \<Rightarrow> ('a \<Rightarrow> 'b run) \<Rightarrow> 'b run" where
  "and_then m k =
     (case snd m of
        Inl e \<Rightarrow> (fst m, Inl e)
      | Inr v \<Rightarrow> prepend (fst m) (k v))"

text \<open>\<open>await ev out k\<close>: make the call \<open>ev\<close>, whose outcome is \<open>out\<close>, and continue with \<open>k\<close>
  when it resolves.  \<open>attempt\<close> is the same for a synchronous call that talks to nobody.\<close>

definition await :: "event \<Rightarrow> 'a outcome \<Rightarrow> ('a \<Rightarrow> 'b run) \<Rightarrow> 'b run" where
  "await ev out k = and_then (call ev out) k"

definition attempt :: "'a outcome \<Rightarrow> ('a \<Rightarrow> 'b run) \<Rightarrow> 'b run" where
  "attempt out k = and_then ([], out) k"

text \<open>\<open>deref x e\<close>: reading a property of \<open>x\<close>, which throws the TypeError \<open>e\<close> when \<open>x\<close> is
  undefined.  \<open>or_nil\<close> is \<open>args ?? []\<close>.\<close>

definition deref :: "'a option \<Rightarrow> string \<Rightarrow> 'a outcome" where
  "deref x e = (case x of None \<Rightarrow> Inl e | Some v \<Rightarrow> Inr v)"

definition or_nil :: "'a list option \<Rightarrow> 'a list" where
  "or_nil args = (case args of None \<Rightarrow> [] | Some a \<Rightarrow> a)"

definition try_catch :: "'a run \<Rightarrow> (string \<Rightarrow> 'a run) \<Rightarrow> 'a run" where
  "try_catch body handler =
     (case snd body of
        Inl e \<Rightarrow> prepend (fst body) (handler e)
      | Inr v \<Rightarrow> body)"

record evm_chain =
  chain_id :: int

record fetch_response =
  res_ok :: bool
  res_text :: "string outcome"

record compile_error =
  severity :: string
  formattedMessage :: string

record artifact =
  bytecode_object :: string
  artifact_abi :: "jsval list"

record compile_output =
  out_errors :: "compile_error list option"
  out_contracts :: "(string \<times> (string \<times> artifact) list) list option"

record fee_rates =
  hourFee :: int

record utxo =
  utxo_txid :: string
  utxo_vout :: nat
  utxo_value :: int

record target =
  target_address :: string
  target_value :: int

record selection =
  sel_inputs :: "utxo list option"
  sel_outputs :: "target list option"
  sel_fee :: int

text \<open>
  The collaborators of the handlers: the functions of \<open>@midl/core\<close>, \<open>@midl/executor\<close>,
  \<open>viem\<close>, \<open>solc\<close>, \<open>bitcoinselect\<close> and \<open>fetch\<close>, each given by the outcome it has on its
  arguments.  \<open>fetch_get\<close> also takes the number of downloads made before it in the same
  invocation, so that a remote may answer the same URL differently over time.
\<close>

record upstream =
  getDefaultAccount :: "account option outcome"
  signPSBT :: "sign_request \<Rightarrow> string outcome"
  broadcastTransaction :: "string \<Rightarrow> string outcome"
  getEVMFromBitcoinNetwork :: "network_cfg option \<Rightarrow> evm_chain outcome"
  encodeFunctionData :: "jsval list \<Rightarrow> string \<Rightarrow> jsval list \<Rightarrow> string outcome"
  encodeDeployData :: "jsval list \<Rightarrow> jsval list \<Rightarrow> string \<Rightarrow> string outcome"
  addTxIntention :: "intention \<Rightarrow> intention outcome"
  finalizeBTCTransaction :: "intention list \<Rightarrow> int option \<Rightarrow> finalized outcome"
  signIntention :: "intention \<Rightarrow> intention list \<Rightarrow> string \<Rightarrow> SignMessageProtocol \<Rightarrow> string outcome"
  keccak256 :: "string \<Rightarrow> string outcome"
  client_request :: "rpc_request \<Rightarrow> rpc_options \<Rightarrow> string list outcome"
  waitForTransactionReceipt :: "string \<Rightarrow> nat \<Rightarrow> int outcome"
  getEVMAddress :: "account option \<Rightarrow> network_cfg option \<Rightarrow> string outcome"
  getTransactionCount :: "string \<Rightarrow> int outcome"
  getContractAddress :: "string \<Rightarrow> int \<Rightarrow> string outcome"
  fetch_get :: "nat \<Rightarrow> string \<Rightarrow> fetch_response outcome"
  fetch_post :: "string \<Rightarrow> verify_body \<Rightarrow> fetch_response outcome"
  solc_compile :: "(string \<times> string) list \<Rightarrow> compile_output outcome"
  solc_version :: "string outcome"
  getFeeRate :: "fee_rates outcome"
  getUTXOs :: "string \<Rightarrow> utxo list outcome"
  coinSelect :: "utxo list \<Rightarrow> target list \<Rightarrow> int \<Rightarrow> selection"
  satoshisToBtc :: "int \<Rightarrow> string"

text \<open>The second argument of a tool handler; \<open>sendRequest\<close> is the elicitation channel.\<close>

record request_extra =
  sendRequest :: "(elicitation \<Rightarrow> jsval outcome) option"

definition sendRequest_of :: "request_extra option \<Rightarrow> (elicitation \<Rightarrow> jsval outcome) option" where
  "sendRequest_of extra = (case extra of None \<Rightarrow> None | Some x \<Rightarrow> sendRequest x)"

text \<open>\<open>address ? state.accounts?.find(a => a.address === address) : getDefaultAccount(config)\<close>\<close>

definition find_account :: "midl_state \<Rightarrow> upstream \<Rightarrow> string option \<Rightarrow> account option outcome" where
  "find_account state up addr =
     (case addr of
        None \<Rightarrow> getDefaultAccount up
      | Some a \<Rightarrow>
          if a = [] then getDefaultAccount up
          else (case accounts state of
                  None \<Rightarrow> Inr None
                | Some accs \<Rightarrow> Inr (find (\<lambda>x. account_address x = a) accs)))"

section \<open>Actionable tools (tools/actionable.ts)\<close>

subsection \<open>request-psbt-signature\<close>

definition sign_elicitation :: elicitation where
  "sign_elicitation =
     \<lparr>el_method = ''elicitation/create'', el_mode = ''form'',
      el_message = ''Please confirm that you want to SIGN this Bitcoin transaction.'',
      el_property = ''approved'', el_description = ''I approve this signature request'',
      el_required = [''approved'']\<rparr>"

definition request_psbt_signature ::
  "midl_state \<Rightarrow> upstream \<Rightarrow> string \<Rightarrow> string option \<Rightarrow> request_extra option \<Rightarrow> tool_result run" where
  "request_psbt_signature cfg up psbt address extra =
     try_catch
       (case sendRequest_of extra of
          Some send \<Rightarrow>
            await (ElicitationCreate sign_elicitation) (send sign_elicitation) (\<lambda>confirmed.
              if \<not> truthy confirmed \<or> \<not> truthy (get_prop confirmed ''approved'')
              then return (error_result ''Signature request declined by user.'')
              else
                attempt (find_account cfg up address) (\<lambda>account.
                  case account of
                    None \<Rightarrow> throw ''No account found for signing.''
                  | Some acc \<Rightarrow>
                      (let req = \<lparr>sign_psbt = psbt, signInputs = [(account_address acc, [0])],
                                  sign_publish = False\<rparr>
                       in await (SignPSBT req) (signPSBT up req) (\<lambda>signedRes.
                            return (ok_result (''PSBT signed successfully.'' @ nl @ nl
                                      @ ''Signed PSBT (Base64):'' @ nl @ signedRes))))))
        | None \<Rightarrow>
            return (error_result
              ''Error: Human elicitation required for signing but not supported by client.''))
       (\<lambda>message. return (error_result (''Error signing PSBT: '' @ message)))"

subsection \<open>request-transaction-broadcast\<close>

definition broadcast_elicitation :: elicitation where
  "broadcast_elicitation =
     \<lparr>el_method = ''elicitation/create'', el_mode = ''form'',
      el_message = ''CRITICAL: You are about to BROADCAST a transaction to the Bitcoin Network. This action is irreversible.'',
      el_property = ''confirm'',
      el_description = ''I understand and wish to broadcast this transaction'',
      el_required = [''confirm'']\<rparr>"

text \<open>\<open>`${v}`\<close> for a string that may be undefined.\<close>

definition template_str :: "string option \<Rightarrow> string" where
  "template_str v = (case v of None \<Rightarrow> ''undefined'' | Some x \<Rightarrow> x)"

definition request_transaction_broadcast ::
  "midl_state \<Rightarrow> upstream \<Rightarrow> string \<Rightarrow> request_extra option \<Rightarrow> tool_result run" where
  "request_transaction_broadcast cfg up txHex extra =
     try_catch
       (case sendRequest_of extra of
          Some send \<Rightarrow>
            await (ElicitationCreate broadcast_elicitation) (send broadcast_elicitation) (\<lambda>confirmed.
              if \<not> truthy confirmed \<or> \<not> truthy (get_prop confirmed ''confirm'')
              then return (error_result ''Broadcast cancelled by user.'')
              else
                await (BroadcastTransaction txHex) (broadcastTransaction up txHex) (\<lambda>txId.
                  attempt (deref (network cfg) ''Cannot read properties of undefined (reading 'explorerUrl')'')
                    (\<lambda>net.
                      return (ok_result (''Transaction broadcasted successfully!'' @ nl @ nl
                                @ ''Transaction ID: '' @ txId @ nl
                                @ ''View on Explorer: '' @ template_str (net_explorerUrl net) @ txId)))))
        | None \<Rightarrow>
            return (error_result
              ''Error: Human elicitation required for broadcasting but not supported by client.''))
       (\<lambda>message. return (error_result (''Error broadcasting transaction: '' @ message)))"

subsection \<open>broadcast-transaction\<close>

definition check_mark :: string where
  "check_mark = [CHR 0xE2, CHR 0x9C, CHR 0x85]"

definition broadcast_transaction :: "midl_state \<Rightarrow> upstream \<Rightarrow> string \<Rightarrow> tool_result run" where
  "broadcast_transaction cfg up txHex =
     try_catch
       (await (BroadcastTransaction txHex) (broadcastTransaction up txHex) (\<lambda>txId.
          (let explorerUrl = or_else (case network cfg of None \<Rightarrow> None | Some net \<Rightarrow> net_explorerUrl net) []
           in return (ok_result (check_mark @ '' Transaction broadcasted successfully!'' @ nl @ nl
                        @ ''Transaction ID: '' @ txId @ nl
                        @ ''Explorer: '' @ explorerUrl @ txId)))))
       (\<lambda>message. return (error_result (''Error broadcasting: '' @ message)))"


subsection \<open>sendBTCTransactions\<close>

text \<open>The helper that calls the \<open>eth_sendBTCTransactions\<close> RPC method through
  \<open>client.request\<close>.\<close>

definition sendBTCTransactions :: "upstream \<Rightarrow> string list \<Rightarrow> string \<Rightarrow> string list run" where
  "sendBTCTransactions client serializedTransactions btcTransaction =
     (let req = \<lparr>rpc_method = ''eth_sendBTCTransactions'',
                 rpc_params = [HexList serializedTransactions, HexString btcTransaction]\<rparr>;
          opts = \<lparr>retryCount = 0\<rparr>
      in call (ClientRequest req opts) (client_request client req opts))"

subsection \<open>call-contract\<close>

text \<open>\<open>v ? BigInt(v) : undefined\<close> and \<open>...(feeRate ? { feeRate } : {})\<close>: an absent or zero
  number is dropped.\<close>

definition nonzero :: "int option \<Rightarrow> int option" where
  "nonzero v = (case v of None \<Rightarrow> None | Some x \<Rightarrow> if x = 0 then None else Some x)"

text \<open>\<open>btcTx.tx?.id || ""\<close> and \<open>btcTx.tx?.hex || ""\<close>.\<close>

definition btcTxId_of :: "finalized \<Rightarrow> string" where
  "btcTxId_of btcTx = or_else (map_option tx_id (fin_tx btcTx)) []"

definition btcTxHex_of :: "finalized \<Rightarrow> string" where
  "btcTxHex_of btcTx = or_else (map_option tx_hex (fin_tx btcTx)) []"

text \<open>The arguments that \<open>call-contract\<close> and \<open>deploy-contract-source\<close> pass to
  \<open>addTxIntention\<close>.\<close>

definition call_intention :: "string \<Rightarrow> string \<Rightarrow> int option \<Rightarrow> evm_chain \<Rightarrow> intention" where
  "call_intention contractAddress data val evmChain =
     \<lparr>evmTransaction =
        \<lparr>tx_type = ''btc'', tx_to = Some contractAddress, tx_data = data,
         tx_value = nonzero val, tx_chainId = Some (chain_id evmChain)\<rparr>,
      meta_contractName = None\<rparr>"

definition deploy_intention :: "string \<Rightarrow> evm_chain \<Rightarrow> string option \<Rightarrow> intention" where
  "deploy_intention data evmChain targetName =
     \<lparr>evmTransaction =
        \<lparr>tx_type = ''btc'', tx_to = None, tx_data = data, tx_value = None,
         tx_chainId = Some (chain_id evmChain)\<rparr>,
      meta_contractName = Some targetName\<rparr>"

definition type_error_id :: string where
  "type_error_id = ''Cannot read properties of undefined (reading 'id')''"

definition receipt_note :: string where
  "receipt_note = nl @ ''Note: Transaction submitted, waiting for confirmation...''"

definition call_contract_text :: "string \<Rightarrow> string \<Rightarrow> string \<Rightarrow> string \<Rightarrow> string \<Rightarrow> string \<Rightarrow> string" where
  "call_contract_text contractAddress functionName btcTxId evmTxHash receiptInfo blockscoutUrl =
     check_mark @ '' Contract call executed successfully!'' @ nl @ nl
     @ ''Contract: '' @ contractAddress @ nl
     @ ''Function: '' @ functionName @ nl
     @ ''BTC Transaction ID: '' @ btcTxId @ nl
     @ ''EVM Transaction Hash: '' @ evmTxHash @ receiptInfo @ nl @ nl
     @ ''View on Blockscout: '' @ blockscoutUrl"

definition call_contract ::
  "midl_state \<Rightarrow> upstream \<Rightarrow> string \<Rightarrow> jsval list \<Rightarrow> string \<Rightarrow> jsval list option
     \<Rightarrow> int option \<Rightarrow> int option \<Rightarrow> tool_result run" where
  "call_contract cfg up contractAddress abi functionName args val feeRate =
     try_catch
       (attempt (getEVMFromBitcoinNetwork up (network cfg)) (\<lambda>evmChain.
        attempt (encodeFunctionData up abi functionName (or_nil args)) (\<lambda>data.
        (let req = call_intention contractAddress data val evmChain
         in await (AddTxIntention req) (addTxIntention up req) (\<lambda>intention.
        await (FinalizeBTCTransaction [intention] (nonzero feeRate))
              (finalizeBTCTransaction up [intention] (nonzero feeRate)) (\<lambda>btcTx.
        (let btcTxId = btcTxId_of btcTx;
             btcTxHex = btcTxHex_of btcTx
         in await (SignIntention intention [intention] btcTxId Bip322)
                  (signIntention up intention [intention] btcTxId Bip322) (\<lambda>signedEvmTx.
        attempt (keccak256 up signedEvmTx) (\<lambda>evmTxHash.
        and_then (sendBTCTransactions up [signedEvmTx] btcTxHex) (\<lambda>_.
        and_then
          (try_catch
             (await (WaitForTransactionReceipt evmTxHash 60000)
                    (waitForTransactionReceipt up evmTxHash 60000) (\<lambda>blockNumber.
                return (nl @ ''Confirmed at block: '' @ show_int blockNumber)))
             (\<lambda>e. return receipt_note))
          (\<lambda>receiptInfo.
        attempt (deref (network cfg) type_error_id) (\<lambda>net.
            (let blockscoutUrl =
                   (if net_id net = ''regtest''
                    then ''https://blockscout.regtest.midl.xyz/tx/'' @ evmTxHash
                    else ''https://blockscout.midl.xyz/tx/'' @ evmTxHash)
             in return (ok_result
                  (call_contract_text contractAddress functionName btcTxId evmTxHash
                     receiptInfo blockscoutUrl)))))))))))))))
       (\<lambda>message. return (error_result (''Error calling contract: '' @ message)))"

subsection \<open>deploy-contract-source: the import resolver\<close>

text \<open>
  The regular expression \<open>/import\s+["']([^"']+)["']/g\<close>.  \<open>match_import s\<close> tries to match
  it at the start of \<open>s\<close> and returns the captured path with the text after the match.
  White space and quotes are disjoint character classes, so the greedy repetitions never
  backtrack into a match.  \<open>import_matches\<close> is the sequence of captures that the loop
  \<open>while ((match = importRegex.exec(content)) !== null)\<close> sees: after a match the search
  resumes behind it, otherwise one character further on.  \<open>\s\<close> is the white space and
  line terminators of ECMAScript: the six ASCII characters of \<open>is_space\<close>, U+00A0 (two
  bytes in UTF-8) and the three-byte characters of \<open>wide_spaces\<close> (U+1680, U+2000 to
  U+200A, U+2028, U+2029, U+202F, U+205F, U+3000 and U+FEFF).  \<open>space_width s\<close> is the
  number of bytes of the white-space character that \<open>s\<close> starts with, 0 if it starts
  with none, and \<open>skip_spaces\<close> removes the longest run of them.
\<close>

definition is_space :: "char \<Rightarrow> bool" where
  "is_space c = (c \<in> set [CHR '' '', CHR 0x09, CHR 0x0A, CHR 0x0B, CHR 0x0C, CHR 0x0D])"

definition wide_spaces :: "string list" where
  "wide_spaces =
     [[CHR 0xE1, CHR 0x9A, CHR 0x80],
      [CHR 0xE2, CHR 0x80, CHR 0x80], [CHR 0xE2, CHR 0x80, CHR 0x81], [CHR 0xE2, CHR 0x80, CHR 0x82],
      [CHR 0xE2, CHR 0x80, CHR 0x83], [CHR 0xE2, CHR 0x80, CHR 0x84], [CHR 0xE2, CHR 0x80, CHR 0x85],
      [CHR 0xE2, CHR 0x80, CHR 0x86], [CHR 0xE2, CHR 0x80, CHR 0x87], [CHR 0xE2, CHR 0x80, CHR 0x88],
      [CHR 0xE2, CHR 0x80, CHR 0x89], [CHR 0xE2, CHR 0x80, CHR 0x8A],
      [CHR 0xE2, CHR 0x80, CHR 0xA8], [CHR 0xE2, CHR 0x80, CHR 0xA9], [CHR 0xE2, CHR 0x80, CHR 0xAF],
      [CHR 0xE2, CHR 0x81, CHR 0x9F],
      [CHR 0xE3, CHR 0x80, CHR 0x80],
      [CHR 0xEF, CHR 0xBB, CHR 0xBF]]"

definition space_width :: "string \<Rightarrow> nat" where
  "space_width s =
     (case s of
        [] \<Rightarrow> 0
      | c # cs \<Rightarrow>
          if is_space c then 1
          else if take 2 s = [CHR 0xC2, CHR 0xA0] then 2
          else if take 3 s \<in> set wide_spaces then 3
          else 0)"

function skip_spaces :: "string \<Rightarrow> string" where
  "skip_spaces s = (if space_width s = 0 then s else skip_spaces (drop (space_width s) s))"
  by pat_completeness auto
termination
proof (relation "measure length")
  show "wf (measure length)" by simp
next
  fix s :: string
  assume "space_width s \<noteq> 0"
  then have "s \<noteq> []" by (auto simp: space_width_def)
  with \<open>space_width s \<noteq> 0\<close> show "(drop (space_width s) s, s) \<in> measure length" by simp
qed

definition is_quote :: "char \<Rightarrow> bool" where
  "is_quote c = (c = CHR 0x22 \<or> c = CHR 0x27)"

definition match_import :: "string \<Rightarrow> (string \<times> string) option" where
  "match_import s =
     (if startsWith s ''import'' then
        (let afterKw = drop 6 s;
             afterWs = skip_spaces afterKw
         in if space_width afterKw = 0 then None
            else (case afterWs of
                    [] \<Rightarrow> None
                  | q # afterQ \<Rightarrow>
                      if \<not> is_quote q then None
                      else (let path = takeWhile (\<lambda>c. \<not> is_quote c) afterQ;
                                afterPath = dropWhile (\<lambda>c. \<not> is_quote c) afterQ
                            in if path = [] then None
                               else (case afterPath of
                                       [] \<Rightarrow> None
                                     | q2 # rest \<Rightarrow> Some (path, rest)))))
      else None)"

function import_matches :: "string \<Rightarrow> string list" where
  "import_matches [] = []"
| "import_matches (c # cs) =
     (case match_import (c # cs) of
        Some (path, rest) \<Rightarrow> path # import_matches rest
      | None \<Rightarrow> import_matches cs)"
  by pat_completeness auto
termination
proof (relation "measure length")
  show "wf (measure length)" by simp
next
  fix c :: char and cs :: string
  assume "match_import (c # cs) = None"
  show "(cs, c # cs) \<in> measure length" by simp
next
  fix c :: char and cs x2 path rest
  assume "match_import (c # cs) = Some x2" and "(path, rest) = x2"
  then have m: "match_import (c # cs) = Some (path, rest)" by simp
  have dw: "length (dropWhile P xs) \<le> length xs" for P and xs :: string
    by (induction xs) auto
  have sk: "length (skip_spaces xs) \<le> length xs" for xs :: string
  proof (induction xs rule: skip_spaces.induct)
    case (1 s)
    show ?case
    proof (cases "space_width s = 0")
      case True
      then show ?thesis by simp
    next
      case False
      with 1 have "length (skip_spaces (drop (space_width s) s)) \<le> length (drop (space_width s) s)"
        by blast
      also have "\<dots> \<le> length s" by simp
      finally show ?thesis using False by (subst skip_spaces.simps) simp
    qed
  qed
  from m obtain q afterQ q2 where
    a: "skip_spaces (drop 6 (c # cs)) = q # afterQ" and
    b: "dropWhile (\<lambda>c. \<not> is_quote c) afterQ = q2 # rest"
    by (auto simp: match_import_def Let_def simp del: skip_spaces.simps split: if_splits list.splits)
  have "length rest < length afterQ"
    using dw[of "\<lambda>c. \<not> is_quote c" afterQ] b by simp
  also have "length afterQ < length (drop 6 (c # cs))"
    using sk[of "drop 6 (c # cs)"] a by simp
  also have "\<dots> \<le> length (c # cs)" by simp
  finally show "(rest, c # cs) \<in> measure length" by simp
qed

text \<open>\<open>s.replace(pat, rep)\<close> for a non-empty string pattern: the first occurrence only.\<close>

fun replace_first :: "string \<Rightarrow> string \<Rightarrow> string \<Rightarrow> string" where
  "replace_first [] pat rep = []"
| "replace_first (c # cs) pat rep =
     (if startsWith (c # cs) pat then rep @ drop (length pat) (c # cs)
      else c # replace_first cs pat rep)"

definition openzeppelin_base :: string where
  "openzeppelin_base = ''https://raw.githubusercontent.com/OpenZeppelin/openzeppelin-contracts/master/''"

text \<open>
  The resolver's state: the \<open>sources\<close> table it fills, in insertion order, and the URLs it
  has downloaded so far.  \<open>resolveImports n\<close> is the resolver cut off at \<open>n\<close> nested calls:
  it ends \<open>Completed\<close>, or \<open>Raised\<close> when \<open>fetch\<close> or \<open>res.text()\<close> rejects, or \<open>Unfinished\<close>
  when the nesting would go deeper than \<open>n\<close>.  \<open>resolveEach\<close> is the body of the
  \<open>while\<close> loop over the matches of one file.
\<close>

record resolver =
  sources :: "(string \<times> string) list"
  downloads :: "string list"

datatype resolve_status = Completed | Raised string | Unfinished

fun resolveImports ::
    "nat \<Rightarrow> (nat \<Rightarrow> string \<Rightarrow> fetch_response outcome) \<Rightarrow> resolver \<Rightarrow> string \<Rightarrow> resolve_status \<times> resolver"
  and resolveEach ::
    "nat \<Rightarrow> (nat \<Rightarrow> string \<Rightarrow> fetch_response outcome) \<Rightarrow> resolver \<Rightarrow> string list \<Rightarrow> resolve_status \<times> resolver"
where
  "resolveImports 0 fetch st content = (Unfinished, st)"
| "resolveImports (Suc n) fetch st content = resolveEach n fetch st (import_matches content)"
| "resolveEach n fetch st [] = (Completed, st)"
| "resolveEach n fetch st (importPath # rest) =
     (if importPath \<noteq> [] \<and> map_of (sources st) importPath = None then
        if startsWith importPath ''@openzeppelin/'' then
          (let url = openzeppelin_base @ replace_first importPath ''@openzeppelin/'' [];
               st1 = st\<lparr>downloads := downloads st @ [url]\<rparr>
           in case fetch (length (downloads st)) url of
                Inl e \<Rightarrow> (Raised e, st1)
              | Inr res \<Rightarrow>
                  if res_ok res then
                    (case res_text res of
                       Inl e \<Rightarrow> (Raised e, st1)
                     | Inr importedSource \<Rightarrow>
                         (let st2 = st1\<lparr>sources := sources st1 @ [(importPath, importedSource)]\<rparr>
                          in case resolveImports n fetch st2 importedSource of
                               (Completed, st3) \<Rightarrow> resolveEach n fetch st3 rest
                             | other \<Rightarrow> other))
                  else resolveEach n fetch st1 rest)
        else resolveEach n fetch st rest
      else resolveEach n fetch st rest)"

subsection \<open>deploy-contract-source: compiling and choosing the contract\<close>

text \<open>
  The compiler output comes from \<open>JSON.parse\<close>, so its objects inherit from
  \<open>Object.prototype\<close>: the read \<open>output.contracts[fileName][targetName]\<close> yields the
  artifact when the file has a contract of that name, and otherwise a member of
  \<open>Object.prototype\<close> when \<open>targetName\<close> is the name of one; both are truthy.
  \<open>find_artifact\<close> returns what the loop over the files keeps: \<open>None\<close> when no file
  yields anything, \<open>Some None\<close> for an inherited member, which has no \<open>evm\<close> property,
  and \<open>Some (Some a)\<close> for an artifact.  A property key that is \<open>undefined\<close> reads the
  property called \<open>undefined\<close>.
\<close>

definition object_prototype_members :: "string list" where
  "object_prototype_members =
     [''constructor'', ''__defineGetter__'', ''__defineSetter__'', ''hasOwnProperty'',
      ''__lookupGetter__'', ''__lookupSetter__'', ''isPrototypeOf'', ''propertyIsEnumerable'',
      ''toString'', ''valueOf'', ''__proto__'', ''toLocaleString'']"

definition compile_errors :: "compile_output \<Rightarrow> compile_error list" where
  "compile_errors output =
     (case out_errors output of
        None \<Rightarrow> []
      | Some es \<Rightarrow> filter (\<lambda>e. severity e = ''error'') es)"

definition default_target :: "compile_output \<Rightarrow> string option \<Rightarrow> string option outcome" where
  "default_target output contractName =
     (if contractName = None \<or> contractName = Some [] then
        (case out_contracts output of
           None \<Rightarrow> Inl ''Cannot convert undefined or null to object''
         | Some files \<Rightarrow>
             (case files of
                [] \<Rightarrow> Inr contractName
              | (fileName, fileContracts) # _ \<Rightarrow>
                  Inr (if fileContracts = [] then None else Some (fst (last fileContracts)))))
      else Inr contractName)"

definition find_artifact :: "compile_output \<Rightarrow> string option \<Rightarrow> artifact option option" where
  "find_artifact output targetName =
     (case out_contracts output of
        None \<Rightarrow> None
      | Some files \<Rightarrow>
          (case find (\<lambda>f. map_of (snd f) (template_str targetName) \<noteq> None
                         \<or> template_str targetName \<in> set object_prototype_members) files of
             None \<Rightarrow> None
           | Some f \<Rightarrow> Some (map_of (snd f) (template_str targetName))))"

fun join_with :: "string \<Rightarrow> string list \<Rightarrow> string" where
  "join_with sep [] = []"
| "join_with sep [x] = x"
| "join_with sep (x # y # ys) = x @ sep @ join_with sep (y # ys)"

definition not_found_text ::
  "string option \<Rightarrow> string option \<Rightarrow> (string \<times> (string \<times> artifact) list) list \<Rightarrow> string" where
  "not_found_text targetName contractName files =
     ''Contract '' @ [CHR 0x22]
     @ template_str (if targetName = None \<or> targetName = Some [] then contractName else targetName)
     @ [CHR 0x22] @ '' not found. Available: ''
     @ join_with '', '' (concat (map (\<lambda>f. map fst (snd f)) files))"

definition with_0x :: "string \<Rightarrow> string" where
  "with_0x data = (if startsWith data ''0x'' then data else ''0x'' @ data)"

definition flatten_sources :: "string \<Rightarrow> (string \<times> string) list \<Rightarrow> string" where
  "flatten_sources sourceCode srcs =
     foldl (\<lambda>flattenedSource entry.
              if fst entry \<noteq> ''Contract.sol''
              then ''// File: '' @ fst entry @ nl @ snd entry @ nl @ nl @ flattenedSource
              else flattenedSource)
           sourceCode srcs"

definition warning_sign :: string where
  "warning_sign = [CHR 0xE2, CHR 0x9A, CHR 0xA0, CHR 0xEF, CHR 0xB8, CHR 0x8F]"

definition deploy_text ::
  "string option \<Rightarrow> string \<Rightarrow> string \<Rightarrow> string \<Rightarrow> string \<Rightarrow> string \<Rightarrow> string \<Rightarrow> string \<Rightarrow> string" where
  "deploy_text targetName predictedAddress btcTxId evmTxHash receiptInfo verificationInfo
      blockscoutUrl explorer =
     check_mark @ '' Contract deployed successfully!'' @ nl @ nl
     @ ''Contract Name: '' @ template_str targetName @ nl
     @ ''Contract Address: '' @ predictedAddress @ nl
     @ ''BTC Transaction ID: '' @ btcTxId @ nl
     @ ''EVM Transaction Hash: '' @ evmTxHash @ receiptInfo @ verificationInfo @ nl @ nl
     @ ''View on Blockscout: '' @ blockscoutUrl @ nl
     @ ''View BTC tx: '' @ explorer @ btcTxId"

subsection \<open>deploy-contract-source: the handler\<close>

text \<open>Step 5 of the handler, the submission of the source to Blockscout, inside its own
  \<open>try\<close>/\<open>catch\<close>.\<close>

definition auto_verify ::
  "upstream \<Rightarrow> string \<Rightarrow> (string \<times> string) list \<Rightarrow> string \<Rightarrow> string \<Rightarrow> string option \<Rightarrow> string run" where
  "auto_verify up sourceCode srcs blockscoutBaseUrl predictedAddress targetName =
     try_catch
       (let flattenedSource = flatten_sources sourceCode srcs
        in attempt (solc_version up) (\<lambda>version.
             (let compilerVersion = ''v'' @ replace_first version ''.Emscripten.clang'' [];
                  url = blockscoutBaseUrl @ ''/api/v2/smart-contracts/'' @ predictedAddress
                        @ ''/verification/via/flattened-code'';
                  body = \<lparr>compiler_version = compilerVersion, source_code = flattenedSource,
                          is_optimization_enabled = False, optimization_runs = 200,
                          contract_name = targetName, evm_version = ''cancun'',
                          autodetect_constructor_args = True, license_type = ''mit''\<rparr>
              in await (FetchPost url body) (fetch_post up url body) (\<lambda>verifyResponse.
                   if res_ok verifyResponse
                   then return (nl @ check_mark @ '' Contract verification submitted to Blockscout'')
                   else attempt (res_text verifyResponse) (\<lambda>errorText.
                          return (nl @ warning_sign @ '' Verification failed: '' @ take 100 errorText))))))
       (\<lambda>message. return (nl @ warning_sign @ '' Auto-verification skipped: '' @ message))"

text \<open>The handler from the compilation on, for the \<open>sources\<close> table the resolver has built.\<close>

definition deploy_compiled ::
  "midl_state \<Rightarrow> upstream \<Rightarrow> string \<Rightarrow> string option \<Rightarrow> jsval list option \<Rightarrow> int option
     \<Rightarrow> (string \<times> string) list \<Rightarrow> tool_result run" where
  "deploy_compiled cfg up sourceCode contractName args feeRate srcs =
     attempt (solc_compile up srcs) (\<lambda>output.
     case compile_errors output of
       e # _ \<Rightarrow> return (error_result (''Compilation Error: '' @ formattedMessage e))
     | [] \<Rightarrow>
     attempt (default_target output contractName) (\<lambda>targetName.
     case find_artifact output targetName of
       None \<Rightarrow>
         attempt (deref (out_contracts output) ''Cannot convert undefined or null to object'') (\<lambda>files.
           return (error_result (not_found_text targetName contractName files)))
     | Some found \<Rightarrow>
     attempt (deref found ''Cannot read properties of undefined (reading 'bytecode')'')
       (\<lambda>contractArtifact.
     attempt (getEVMFromBitcoinNetwork up (network cfg)) (\<lambda>evmChain.
     attempt (encodeDeployData up (artifact_abi contractArtifact) (or_nil args)
                (with_0x (bytecode_object contractArtifact))) (\<lambda>data.
     attempt (getDefaultAccount up) (\<lambda>defaultAccount.
     attempt (getEVMAddress up defaultAccount (network cfg)) (\<lambda>evmAddress.
     await (GetTransactionCount evmAddress) (getTransactionCount up evmAddress) (\<lambda>nonce.
     attempt (getContractAddress up evmAddress nonce) (\<lambda>predictedAddress.
     (let req = deploy_intention data evmChain targetName
      in await (AddTxIntention req) (addTxIntention up req) (\<lambda>intention.
     await (FinalizeBTCTransaction [intention] (nonzero feeRate))
           (finalizeBTCTransaction up [intention] (nonzero feeRate)) (\<lambda>btcTx.
     (let btcTxId = btcTxId_of btcTx;
          btcTxHex = btcTxHex_of btcTx
      in await (SignIntention intention [intention] btcTxId Bip322)
               (signIntention up intention [intention] btcTxId Bip322) (\<lambda>signedEvmTx.
     attempt (keccak256 up signedEvmTx) (\<lambda>evmTxHash.
     and_then (sendBTCTransactions up [signedEvmTx] btcTxHex) (\<lambda>_.
     and_then
       (try_catch
          (await (WaitForTransactionReceipt evmTxHash 60000)
                 (waitForTransactionReceipt up evmTxHash 60000) (\<lambda>blockNumber.
             return (nl @ ''Contract deployed at block: '' @ show_int blockNumber)))
          (\<lambda>e. return receipt_note))
       (\<lambda>receiptInfo.
     attempt (deref (network cfg) type_error_id) (\<lambda>net.
     (let blockscoutBaseUrl =
            (if net_id net = ''regtest'' then ''https://blockscout.regtest.midl.xyz''
             else ''https://blockscout.midl.xyz'');
          blockscoutUrl = blockscoutBaseUrl @ ''/address/'' @ predictedAddress
      in and_then (auto_verify up sourceCode srcs blockscoutBaseUrl predictedAddress targetName)
           (\<lambda>verificationInfo.
     return (ok_result
       (deploy_text targetName predictedAddress btcTxId evmTxHash receiptInfo verificationInfo
          blockscoutUrl (or_else (net_explorerUrl net) [])))))))))))))))))))))))"

text \<open>
  The whole handler.  The result is \<open>None\<close> when the import resolution does not finish
  within \<open>fuel\<close> nested calls.
\<close>

definition deploy_contract_source ::
  "nat \<Rightarrow> midl_state \<Rightarrow> upstream \<Rightarrow> string \<Rightarrow> string option \<Rightarrow> jsval list option \<Rightarrow> int option
     \<Rightarrow> tool_result run option" where
  "deploy_contract_source fuel cfg up sourceCode contractName args feeRate =
     (case resolveImports fuel (fetch_get up)
             \<lparr>sources = [(''Contract.sol'', sourceCode)], downloads = []\<rparr> sourceCode of
        (Unfinished, st) \<Rightarrow> None
      | (Raised e, st) \<Rightarrow>
          Some (try_catch (map Fetch (downloads st), Inl e)
                  (\<lambda>message. return (error_result (''Error in deploy-contract-source: '' @ message))))
      | (Completed, st) \<Rightarrow>
          Some (try_catch
                  (prepend (map Fetch (downloads st))
                     (deploy_compiled cfg up sourceCode contractName args feeRate (sources st)))
                  (\<lambda>message. return (error_result (''Error in deploy-contract-source: '' @ message)))))"

section \<open>Analytical tools (tools/analytical.ts)\<close>

subsection \<open>estimate-btc-transfer-fee\<close>

record recipient =
  recipient_address :: string
  recipient_amount :: int

definition insufficient_funds :: tool_result where
  "insufficient_funds =
     error_result ''Error: Insufficient funds or no suitable UTXOs found for this transfer.''"

definition estimate_text :: "string \<Rightarrow> string \<Rightarrow> string \<Rightarrow> string \<Rightarrow> string \<Rightarrow> string" where
  "estimate_text fee feeBtc feeRate inputCount outputCount =
     ''Estimated Fee: '' @ fee @ '' satoshis ('' @ feeBtc @ '' BTC)'' @ nl
     @ ''Fee Rate: '' @ feeRate @ '' sat/vB'' @ nl
     @ ''Inputs: '' @ inputCount @ nl
     @ ''Outputs: '' @ outputCount"

text \<open>This handler has no \<open>try\<close>/\<open>catch\<close>: a rejection of \<open>getDefaultAccount\<close>, \<open>getFeeRate\<close>
  or \<open>getUTXOs\<close> leaves it as an exception.\<close>

definition estimate_btc_transfer_fee ::
  "midl_state \<Rightarrow> upstream \<Rightarrow> recipient list \<Rightarrow> int option \<Rightarrow> string option \<Rightarrow> tool_result run" where
  "estimate_btc_transfer_fee cfg up recipients feeRate from_address =
     attempt (find_account cfg up from_address) (\<lambda>account.
     case account of
       None \<Rightarrow> return (error_result ''Error: No account found for the specified address.'')
     | Some acc \<Rightarrow>
     and_then
       (case nonzero feeRate of
          Some rate \<Rightarrow> return rate
        | None \<Rightarrow> await GetFeeRate (getFeeRate up) (\<lambda>rates. return (hourFee rates)))
       (\<lambda>currentFeeRate.
     await (GetUTXOs (account_address acc)) (getUTXOs up (account_address acc)) (\<lambda>utxos.
     (let targets = map (\<lambda>r. \<lparr>target_address = recipient_address r, target_value = recipient_amount r\<rparr>)
                        recipients;
          selected = coinSelect up utxos targets currentFeeRate
      in case (sel_inputs selected, sel_outputs selected) of
           (Some inputs, Some outputs) \<Rightarrow>
             return (ok_result
               (estimate_text (show_int (sel_fee selected)) (satoshisToBtc up (sel_fee selected))
                  (show_int currentFeeRate) (show_nat (length inputs)) (show_nat (length outputs))))
         | _ \<Rightarrow> return insufficient_funds))))"

section \<open>A sample configuration and sample collaborators\<close>

text \<open>A regtest configuration and collaborators that all answer, used to run the handlers
  on concrete inputs.\<close>

definition demo_account :: account where
  "demo_account = \<lparr>account_address = ''bcrt1qdemo'', account_publicKey = ''02ab''\<rparr>"

definition demo_state :: midl_state where
  "demo_state =
     \<lparr>connection = Some (Connector ''server-connector''),
      network = Some \<lparr>net_id = ''regtest'', net_network = ''regtest'',
                      net_explorerUrl = Some ''https://mempool.regtest.midl.xyz/tx/''\<rparr>,
      accounts = Some [demo_account]\<rparr>"

definition demo_upstream :: upstream where
  "demo_upstream =
     \<lparr>getDefaultAccount = Inr (Some demo_account),
      signPSBT = (\<lambda>req. Inr ''cHNidP8BAA=='' ),
      broadcastTransaction = (\<lambda>txHex. Inr ''beef01''),
      getEVMFromBitcoinNetwork = (\<lambda>net. Inr \<lparr>chain_id = 777\<rparr>),
      encodeFunctionData = (\<lambda>abi functionName args. Inr ''0x60fe47b1''),
      encodeDeployData = (\<lambda>abi args bytecode. Inr bytecode),
      addTxIntention = (\<lambda>req. Inr req),
      finalizeBTCTransaction =
        (\<lambda>intentions feeRate. Inr \<lparr>fin_psbt = ''cHNidP8BAA=='',
                                    fin_tx = Some \<lparr>tx_id = ''beef01'', tx_hex = ''020000''\<rparr>\<rparr>),
      signIntention = (\<lambda>intention intentions txId protocol. Inr (''0x02f8'' @ txId)),
      keccak256 = (\<lambda>bytes. Inr ''0x9c22''),
      client_request = (\<lambda>req opts. Inr [''0x9c22'']),
      waitForTransactionReceipt = (\<lambda>hash timeout. Inr 42),
      getEVMAddress = (\<lambda>acc net. Inr ''0x00a1''),
      getTransactionCount = (\<lambda>addr. Inr 7),
      getContractAddress = (\<lambda>sender nonce. Inr ''0x00c7''),
      fetch_get = (\<lambda>k url. Inr \<lparr>res_ok = False, res_text = Inr ''404: Not Found''\<rparr>),
      fetch_post = (\<lambda>url body. Inr \<lparr>res_ok = True, res_text = Inr ''{}''\<rparr>),
      solc_compile =
        (\<lambda>srcs. Inr \<lparr>out_errors = None,
                      out_contracts =
                        Some [(''Contract.sol'',
                               [(''Counter'', \<lparr>bytecode_object = ''6080'', artifact_abi = []\<rparr>)])]\<rparr>),
      solc_version = Inr ''0.8.28+commit.7893614a.Emscripten.clang'',
      getFeeRate = Inr \<lparr>hourFee = 10\<rparr>,
      getUTXOs = (\<lambda>addr. Inr [\<lparr>utxo_txid = ''aa00'', utxo_vout = 0, utxo_value = 15000\<rparr>]),
      coinSelect =
        (\<lambda>utxos targets feeRate.
           \<lparr>sel_inputs = Some utxos, sel_outputs = Some targets, sel_fee = 500\<rparr>),
      satoshisToBtc = (\<lambda>sats. ''0.00000500'')\<rparr>"

text \<open>The same collaborators, except that the receipt poll times out.\<close>

definition demo_timeout :: upstream where
  "demo_timeout = demo_upstream\<lparr>waitForTransactionReceipt := (\<lambda>hash timeout. Inl ''Timed out while waiting for transaction'')\<rparr>"

text \<open>The same collaborators, except that the UTXO provider is unreachable.\<close>

definition demo_unreachable :: upstream where
  "demo_unreachable = demo_upstream\<lparr>getUTXOs := (\<lambda>addr. Inl ''fetch failed'')\<rparr>"

text \<open>
  A remote that serves a chain of files: the download number \<open>k\<close> (counted from 0) returns
  a file that imports the path \<open>@openzeppelin/a...a\<close> with \<open>k + 2\<close> letters, as long as
  \<open>k < N\<close>, and an empty file after that.  \<open>chain_link 1\<close> is a source that imports the
  first path of the chain.  \<open>fetched_bytes\<close> counts the characters of the files that the
  resolver has stored after the first entry of the table, which is the input itself.
\<close>

definition chain_path :: "nat \<Rightarrow> string" where
  "chain_path j = ''@openzeppelin/'' @ replicate j CHR ''a''"

definition chain_link :: "nat \<Rightarrow> string" where
  "chain_link j = ''import '' @ [CHR 0x22] @ chain_path j @ [CHR 0x22]"

definition chain_remote :: "nat \<Rightarrow> nat \<Rightarrow> string \<Rightarrow> fetch_response outcome" where
  "chain_remote N k url =
     Inr \<lparr>res_ok = True, res_text = Inr (if k < N then chain_link (k + 2) else [])\<rparr>"

definition fetched_bytes :: "resolver \<Rightarrow> nat" where
  "fetched_bytes st = sum_list (map (\<lambda>entry. length (snd entry)) (tl (sources st)))"

text \<open>A client whose elicitation channel answers every request with the value \<open>v\<close>.\<close>

definition answers :: "jsval \<Rightarrow> request_extra option" where
  "answers v = Some \<lparr>sendRequest = Some (\<lambda>el. Inr v)\<rparr>"

text \<open>Predicates on the calls of a run.\<close>

fun sensitive :: "event \<Rightarrow> bool" where
  "sensitive (SignPSBT req) = True"
| "sensitive (BroadcastTransaction txHex) = True"
| "sensitive (FinalizeBTCTransaction intentions feeRate) = True"
| "sensitive (SignIntention intention intentions txId protocol) = True"
| "sensitive (ClientRequest req opts) = True"
| "sensitive ev = False"

fun is_elicitation :: "event \<Rightarrow> bool" where
  "is_elicitation (ElicitationCreate el) = True"
| "is_elicitation ev = False"


fun is_sign_intention :: "event \<Rightarrow> bool" where
  "is_sign_intention (SignIntention intention intentions txId protocol) = True"
| "is_sign_intention ev = False"

section \<open>Properties\<close>

subsection \<open>Strings\<close>

lemma str_includes_iff: "str_includes s sub \<longleftrightarrow> (\<exists>pre post. s = pre @ sub @ post)"
proof (induction s)
  case Nil
  then show ?case by auto
next
  case (Cons c cs)
  show ?case
  proof
    assume "str_includes (c # cs) sub"
    then consider "prefix sub (c # cs)" | "str_includes cs sub"
      by (auto simp: startsWith_def)
    then show "\<exists>pre post. c # cs = pre @ sub @ post"
    proof cases
      case 1
      then obtain post where "c # cs = sub @ post" by (auto simp: prefix_def)
      then have "c # cs = [] @ sub @ post" by simp
      then show ?thesis by blast
    next
      case 2
      with Cons.IH obtain pre post where "cs = pre @ sub @ post" by blast
      then have "c # cs = (c # pre) @ sub @ post" by simp
      then show ?thesis by blast
    qed
  next
    assume "\<exists>pre post. c # cs = pre @ sub @ post"
    then obtain pre post where e: "c # cs = pre @ sub @ post" by blast
    show "str_includes (c # cs) sub"
    proof (cases pre)
      case Nil
      with e have "prefix sub (c # cs)" by (simp add: prefix_def)
      then show ?thesis by (simp add: startsWith_def)
    next
      case (Cons a pre')
      with e have "cs = pre' @ sub @ post" by simp
      with Cons.IH have "str_includes cs sub" by blast
      then show ?thesis by simp
    qed
  qed
qed

lemma str_includes_self: "str_includes (sub @ post) sub"
  unfolding str_includes_iff by (metis append_Nil)

lemma str_includes_appendI: "str_includes b sub \<Longrightarrow> str_includes (a @ b) sub"
  unfolding str_includes_iff by (metis append.assoc)

subsection \<open>Runs\<close>

lemma fst_prepend: "fst (prepend t r) = t @ fst r" by (simp add: prepend_def)
lemma snd_prepend: "snd (prepend t r) = snd r" by (simp add: prepend_def)
lemma prepend_pair: "prepend t (u, x) = (t @ u, x)" by (simp add: prepend_def)
lemma prepend_prepend: "prepend t (prepend u r) = prepend (t @ u) r" by (simp add: prepend_def)
lemma fst_return: "fst (return v) = []" by (simp add: return_def)
lemma snd_return: "snd (return v) = Inr v" by (simp add: return_def)
lemma fst_throw: "fst (throw e) = []" by (simp add: throw_def)
lemma snd_throw: "snd (throw e) = Inl e" by (simp add: throw_def)
lemma fst_call: "fst (call ev out) = [ev]" by (simp add: call_def)
lemma snd_call: "snd (call ev out) = out" by (simp add: call_def)

lemma await_Inr: "await ev (Inr v) k = prepend [ev] (k v)"
  by (simp add: await_def and_then_def call_def)
lemma await_Inl: "await ev (Inl e) k = ([ev], Inl e)"
  by (simp add: await_def and_then_def call_def)
lemma attempt_Inr: "attempt (Inr v) k = k v"
  by (simp add: attempt_def and_then_def prepend_def)
lemma attempt_Inl: "attempt (Inl e) k = ([], Inl e)"
  by (simp add: attempt_def and_then_def)
lemma and_then_Inr: "and_then (t, Inr v) k = prepend t (k v)"
  by (simp add: and_then_def)
lemma and_then_Inl: "and_then (t, Inl e) k = (t, Inl e)"
  by (simp add: and_then_def)
lemma and_then_prepend: "and_then (prepend t r) k = prepend t (and_then r k)"
  by (simp add: and_then_def prepend_def split: sum.splits)
lemma try_catch_Inl: "try_catch (t, Inl e) h = prepend t (h e)"
  by (simp add: try_catch_def)
lemma try_catch_Inr: "try_catch (t, Inr v) h = (t, Inr v)"
  by (simp add: try_catch_def)
lemma try_catch_prepend: "try_catch (prepend t r) h = prepend t (try_catch r h)"
  by (simp add: try_catch_def prepend_def split: sum.splits)

lemma in_await:
  "x \<in> set (fst (await ev out k)) \<longleftrightarrow> x = ev \<or> (\<exists>v. out = Inr v \<and> x \<in> set (fst (k v)))"
  by (cases out) (auto simp: await_Inr await_Inl fst_prepend)
lemma in_attempt:
  "x \<in> set (fst (attempt out k)) \<longleftrightarrow> (\<exists>v. out = Inr v \<and> x \<in> set (fst (k v)))"
  by (cases out) (auto simp: attempt_Inr attempt_Inl)
lemma in_and_then:
  "x \<in> set (fst (and_then m k)) \<longleftrightarrow>
     x \<in> set (fst m) \<or> (\<exists>v. snd m = Inr v \<and> x \<in> set (fst (k v)))"
  by (cases m; cases "snd m") (auto simp: and_then_Inr and_then_Inl fst_prepend)
lemma fst_try_return: "fst (try_catch b (\<lambda>m. return (f m))) = fst b"
  by (cases "snd b") (auto simp: try_catch_def prepend_def return_def)
lemma snd_try_return:
  "snd (try_catch b (\<lambda>m. return (f m))) = (case snd b of Inl e \<Rightarrow> Inr (f e) | Inr v \<Rightarrow> Inr v)"
  by (cases "snd b") (auto simp: try_catch_def prepend_def return_def)
lemma deref_Some: "deref (Some v) e = Inr v"
  by (simp add: deref_def)

lemma deref_Inr: "deref x e = Inr v \<longleftrightarrow> x = Some v"
  by (simp add: deref_def split: option.splits)

lemmas in_run = in_await in_attempt in_and_then fst_try_return fst_return fst_throw fst_call snd_call
  snd_return snd_throw deref_Inr
lemmas eval_run = await_Inr await_Inl attempt_Inr attempt_Inl and_then_Inr and_then_Inl and_then_prepend
  try_catch_Inl try_catch_Inr try_catch_prepend prepend_pair prepend_prepend return_def throw_def call_def
  deref_def

subsection \<open>The configuration wrapper\<close>

lemma validateConfig_network: "validateConfig cfg = Inr () \<Longrightarrow> \<exists>net. network cfg = Some net"
  by (auto simp: validateConfig_def split: option.splits)

text \<open>
  C10.  Constructing a \<open>MidlConfigWrapper\<close> succeeds exactly when the state has a connection
  and a network whose lower-cased name contains \<open>testnet\<close> or \<open>regtest\<close>, and throws
  otherwise; the wrapper hands out the configuration it validated, so the tools and
  resources registered from it see such a network.  The factory accepts the network id
  \<open>mainnet\<close> and turns it into the network name \<open>bitcoin\<close>, on which the constructor throws.
\<close>

theorem wrapper_requires_testnet:
  "((\<exists>w. new_MidlConfigWrapper cfg = Inr w) \<longleftrightarrow>
      (connection cfg \<noteq> None \<and>
       (\<exists>net. network cfg = Some net \<and>
          (str_includes (toLowerCase (net_network net)) ''testnet'' \<or>
           str_includes (toLowerCase (net_network net)) ''regtest''))))
   \<and> ((\<exists>w. new_MidlConfigWrapper cfg = Inr w) \<or> (\<exists>e. new_MidlConfigWrapper cfg = Inl e))
   \<and> (\<forall>w. new_MidlConfigWrapper cfg = Inr w \<longrightarrow> getConfig w = cfg)
   \<and> (\<forall>net. network cfg = Some net \<and> net \<in> set (factory_networks (Some ''mainnet''))
         \<longrightarrow> net_id net = ''mainnet'' \<and> net_network net = ''bitcoin''
             \<and> (\<exists>e. new_MidlConfigWrapper cfg = Inl e))"
  by (auto simp: new_MidlConfigWrapper_def validateConfig_def getConfig_def Let_def
        factory_networks_def networkId_of_env_def bitcoinNetwork_def toLowerCase_def lower_char_def
        startsWith_def
      split: option.splits sum.splits if_splits)

theorem wrapper_requires_testnet_witness:
  "new_MidlConfigWrapper demo_state = Inr \<lparr>config = demo_state\<rparr>
   \<and> getConfig \<lparr>config = demo_state\<rparr> = demo_state
   \<and> (\<exists>e. new_MidlConfigWrapper
            (demo_state\<lparr>network := Some (hd (factory_networks (Some ''mainnet'')))\<rparr>) = Inl e)"
proof -
  have a: "new_MidlConfigWrapper demo_state = Inr \<lparr>config = demo_state\<rparr>"
    by (simp add: new_MidlConfigWrapper_def validateConfig_def demo_state_def toLowerCase_def
          lower_char_def startsWith_def)
  have n: "network (demo_state\<lparr>network := Some (hd (factory_networks (Some ''mainnet'')))\<rparr>)
             = Some (hd (factory_networks (Some ''mainnet'')))
           \<and> hd (factory_networks (Some ''mainnet'')) \<in> set (factory_networks (Some ''mainnet''))"
    by (simp add: factory_networks_def Let_def)
  from wrapper_requires_testnet[of demo_state] a
  have b: "getConfig \<lparr>config = demo_state\<rparr> = demo_state" by blast
  from wrapper_requires_testnet[of "demo_state\<lparr>network := Some (hd (factory_networks (Some ''mainnet'')))\<rparr>"] n
  have c: "\<exists>e. new_MidlConfigWrapper
            (demo_state\<lparr>network := Some (hd (factory_networks (Some ''mainnet'')))\<rparr>) = Inl e"
    by blast
  from a b c show ?thesis by blast
qed


subsection \<open>The approval gate\<close>

lemma sign_gate_declined:
  assumes "sendRequest_of extra = None
           \<or> (\<exists>send. sendRequest_of extra = Some send \<and>
                 ((\<exists>e. send sign_elicitation = Inl e)
                  \<or> (\<exists>c. send sign_elicitation = Inr c \<and>
                        (\<not> truthy c \<or> \<not> truthy (get_prop c ''approved'')))))"
  shows "(\<exists>res. snd (request_psbt_signature cfg up psbt address extra) = Inr res \<and> isError res)
         \<and> \<not> list_ex sensitive (fst (request_psbt_signature cfg up psbt address extra))"
  using assms
  by (auto simp: request_psbt_signature_def eval_run error_result_def)

lemma sign_gate_passed:
  assumes "list_ex sensitive (fst (request_psbt_signature cfg up psbt address extra))"
  shows "\<exists>send c. sendRequest_of extra = Some send \<and> send sign_elicitation = Inr c
           \<and> truthy c \<and> truthy (get_prop c ''approved'')"
proof (rule ccontr)
  assume "\<not> ?thesis"
  then have "sendRequest_of extra = None
           \<or> (\<exists>send. sendRequest_of extra = Some send \<and>
                 ((\<exists>e. send sign_elicitation = Inl e)
                  \<or> (\<exists>c. send sign_elicitation = Inr c \<and>
                        (\<not> truthy c \<or> \<not> truthy (get_prop c ''approved'')))))"
    by (cases "sendRequest_of extra"; simp) (metis sumE)
  from sign_gate_declined[OF this] assms show False by blast
qed

lemma broadcast_gate_declined:
  assumes "sendRequest_of extra = None
           \<or> (\<exists>send. sendRequest_of extra = Some send \<and>
                 ((\<exists>e. send broadcast_elicitation = Inl e)
                  \<or> (\<exists>c. send broadcast_elicitation = Inr c \<and>
                        (\<not> truthy c \<or> \<not> truthy (get_prop c ''confirm'')))))"
  shows "(\<exists>res. snd (request_transaction_broadcast cfg up txHex extra) = Inr res \<and> isError res)
         \<and> \<not> list_ex sensitive (fst (request_transaction_broadcast cfg up txHex extra))"
  using assms
  by (auto simp: request_transaction_broadcast_def eval_run error_result_def)

lemma broadcast_gate_passed:
  assumes "list_ex sensitive (fst (request_transaction_broadcast cfg up txHex extra))"
  shows "\<exists>send c. sendRequest_of extra = Some send \<and> send broadcast_elicitation = Inr c
           \<and> truthy c \<and> truthy (get_prop c ''confirm'')"
proof (rule ccontr)
  assume "\<not> ?thesis"
  then have "sendRequest_of extra = None
           \<or> (\<exists>send. sendRequest_of extra = Some send \<and>
                 ((\<exists>e. send broadcast_elicitation = Inl e)
                  \<or> (\<exists>c. send broadcast_elicitation = Inr c \<and>
                        (\<not> truthy c \<or> \<not> truthy (get_prop c ''confirm'')))))"
    by (cases "sendRequest_of extra"; simp) (metis sumE)
  from broadcast_gate_declined[OF this] assms show False by blast
qed

lemma sign_run_approved:
  "truthy c \<Longrightarrow> truthy (get_prop c ''approved'') \<Longrightarrow>
   fst (request_psbt_signature demo_state demo_upstream psbt None (answers c))
     = [ElicitationCreate sign_elicitation,
        SignPSBT \<lparr>sign_psbt = psbt, signInputs = [(''bcrt1qdemo'', [0])], sign_publish = False\<rparr>]"
  by (simp add: request_psbt_signature_def answers_def sendRequest_of_def eval_run find_account_def
        demo_upstream_def demo_account_def Let_def)

lemma broadcast_run_approved:
  "truthy c \<Longrightarrow> truthy (get_prop c ''confirm'') \<Longrightarrow>
   fst (request_transaction_broadcast demo_state demo_upstream txHex (answers c))
     = [ElicitationCreate broadcast_elicitation, BroadcastTransaction txHex]"
  by (simp add: request_transaction_broadcast_def answers_def sendRequest_of_def eval_run
        demo_upstream_def demo_state_def Let_def)

text \<open>
  C2.  The claim does not hold of the code.  Both handlers ask for a required boolean field
  in the schema they send, but then test the answer for truthiness only: a client that
  answers \<open>{approved: "no"}\<close> gets the PSBT signed, and one that answers
  \<open>{confirm: "no"}\<close> gets the transaction broadcast.
\<close>

theorem request_tools_accept_non_boolean:
  "request_psbt_signature demo_state demo_upstream ''cHNidP8BAA=='' None
       (answers (JObj [(''approved'', JStr ''no'')]))
     = ([ElicitationCreate sign_elicitation,
         SignPSBT \<lparr>sign_psbt = ''cHNidP8BAA=='', signInputs = [(''bcrt1qdemo'', [0])],
                   sign_publish = False\<rparr>],
        Inr \<lparr>content_text = ''PSBT signed successfully.'' @ [CHR 0x0A, CHR 0x0A]
                 @ ''Signed PSBT (Base64):'' @ [CHR 0x0A] @ ''cHNidP8BAA=='',
              isError = False\<rparr>)
   \<and> request_transaction_broadcast demo_state demo_upstream ''020000''
       (answers (JObj [(''confirm'', JStr ''no'')]))
     = ([ElicitationCreate broadcast_elicitation, BroadcastTransaction ''020000''],
        Inr \<lparr>content_text = ''Transaction broadcasted successfully!'' @ [CHR 0x0A, CHR 0x0A]
                 @ ''Transaction ID: beef01'' @ [CHR 0x0A]
                 @ ''View on Explorer: https://mempool.regtest.midl.xyz/tx/beef01'',
              isError = False\<rparr>)
   \<and> get_prop (JObj [(''approved'', JStr ''no'')]) ''approved'' \<noteq> JBool True
   \<and> get_prop (JObj [(''confirm'', JStr ''no'')]) ''confirm'' \<noteq> JBool True"
  by (simp add: request_psbt_signature_def request_transaction_broadcast_def answers_def
        sendRequest_of_def eval_run find_account_def demo_upstream_def demo_state_def
        demo_account_def try_catch_def prepend_def return_def ok_result_def deref_def
        template_str_def nl_def Let_def)

theorem request_tools_accept_non_boolean_witness:
  "truthy (JObj [(''approved'', JStr ''no'')])
   \<and> truthy (get_prop (JObj [(''approved'', JStr ''no'')]) ''approved'')
   \<and> list_ex sensitive
         (fst (request_psbt_signature demo_state demo_upstream ''cHNidP8BAA=='' None
                 (answers (JObj [(''approved'', JStr ''no'')]))))
   \<and> truthy (JObj [(''confirm'', JStr ''no'')])
   \<and> truthy (get_prop (JObj [(''confirm'', JStr ''no'')]) ''confirm'')
   \<and> list_ex sensitive
         (fst (request_transaction_broadcast demo_state demo_upstream ''020000''
                 (answers (JObj [(''confirm'', JStr ''no'')]))))"
  using request_tools_accept_non_boolean by simp

subsection \<open>Tools without the gate\<close>

lemma call_contract_no_elicitation:
  "ElicitationCreate el \<notin> set (fst (call_contract cfg up contractAddress abi functionName args val feeRate))"
  by (simp add: call_contract_def in_run Let_def sendBTCTransactions_def)

subsection \<open>call-contract\<close>

lemma call_contract_text_note:
  "str_includes (call_contract_text a b c d receipt_note u) receipt_note"
  unfolding call_contract_text_def
  by (intro str_includes_appendI str_includes_self)

lemma fst_await: "fst (await ev out k) = ev # (case out of Inl e \<Rightarrow> [] | Inr v \<Rightarrow> fst (k v))"
  by (cases out) (simp_all add: await_Inr await_Inl fst_prepend)

lemma in_case_sum:
  "x \<in> set (case out of Inl e \<Rightarrow> [] | Inr v \<Rightarrow> fst (k v)) \<longleftrightarrow> (\<exists>v. out = Inr v \<and> x \<in> set (fst (k v)))"
  by (cases out) simp_all

lemma and_then_sendBTCTransactions:
  "and_then (sendBTCTransactions up txs btc) k
     = await (ClientRequest \<lparr>rpc_method = ''eth_sendBTCTransactions'',
                             rpc_params = [HexList txs, HexString btc]\<rparr> \<lparr>retryCount = 0\<rparr>)
         (client_request up \<lparr>rpc_method = ''eth_sendBTCTransactions'',
                             rpc_params = [HexList txs, HexString btc]\<rparr> \<lparr>retryCount = 0\<rparr>) k"
  by (simp add: sendBTCTransactions_def await_def Let_def)

lemmas step_run = await_Inr attempt_Inr and_then_sendBTCTransactions try_catch_prepend prepend_prepend
  deref_Some
  fst_prepend snd_prepend

lemma cc_reach_sign:
  assumes "SignIntention i is tid proto
             \<in> set (fst (call_contract cfg up contractAddress abi functionName args val feeRate))"
  shows "\<exists>evmChain data btcTx.
    getEVMFromBitcoinNetwork up (network cfg) = Inr evmChain \<and>
    encodeFunctionData up abi functionName (or_nil args) = Inr data \<and>
    addTxIntention up (call_intention contractAddress data val evmChain) = Inr i \<and>
    finalizeBTCTransaction up [i] (nonzero feeRate) = Inr btcTx \<and>
    is = [i] \<and> tid = btcTxId_of btcTx \<and> proto = Bip322"
  using assms
  by (simp add: call_contract_def in_run Let_def sendBTCTransactions_def; blast?)


lemma cc_reach_wait:
  assumes "WaitForTransactionReceipt h t
             \<in> set (fst (call_contract cfg up contractAddress abi functionName args val feeRate))"
  shows "\<exists>evmChain data i btcTx signedEvmTx sent.
    getEVMFromBitcoinNetwork up (network cfg) = Inr evmChain \<and>
    encodeFunctionData up abi functionName (or_nil args) = Inr data \<and>
    addTxIntention up (call_intention contractAddress data val evmChain) = Inr i \<and>
    finalizeBTCTransaction up [i] (nonzero feeRate) = Inr btcTx \<and>
    signIntention up i [i] (btcTxId_of btcTx) Bip322 = Inr signedEvmTx \<and>
    keccak256 up signedEvmTx = Inr h \<and>
    client_request up
      \<lparr>rpc_method = ''eth_sendBTCTransactions'',
        rpc_params = [HexList [signedEvmTx], HexString (btcTxHex_of btcTx)]\<rparr>
      \<lparr>retryCount = 0\<rparr> = Inr sent \<and>
    t = 60000"
  using assms
  by (simp add: call_contract_def in_run Let_def sendBTCTransactions_def; blast?)

lemma cc_sign_order:
  assumes "SignIntention i is tid proto
             \<in> set (fst (call_contract cfg up contractAddress abi functionName args val feeRate))"
  shows "\<exists>req post btcTx.
           fst (call_contract cfg up contractAddress abi functionName args val feeRate)
             = AddTxIntention req # FinalizeBTCTransaction is (nonzero feeRate)
                 # SignIntention i is tid proto # post
         \<and> \<not> list_ex is_sign_intention post
         \<and> finalizeBTCTransaction up is (nonzero feeRate) = Inr btcTx
         \<and> proto = Bip322
         \<and> tid = btcTxId_of btcTx
         \<and> (\<forall>tx. fin_tx btcTx = Some tx \<longrightarrow> tid = tx_id tx)
         \<and> (fin_tx btcTx = None \<longrightarrow> tid = [])"
proof -
  from cc_reach_sign[OF assms] obtain evmChain data btcTx where f:
    "getEVMFromBitcoinNetwork up (network cfg) = Inr evmChain"
    "encodeFunctionData up abi functionName (or_nil args) = Inr data"
    "addTxIntention up (call_intention contractAddress data val evmChain) = Inr i"
    "finalizeBTCTransaction up [i] (nonzero feeRate) = Inr btcTx"
    "is = [i]" "tid = btcTxId_of btcTx" "proto = Bip322"
    by blast
  have "\<exists>post. fst (call_contract cfg up contractAddress abi functionName args val feeRate)
             = AddTxIntention (call_intention contractAddress data val evmChain)
                 # FinalizeBTCTransaction is (nonzero feeRate) # SignIntention i is tid proto # post
           \<and> (\<forall>e \<in> set post. \<not> is_sign_intention e)"
    using f
    by (simp add: call_contract_def Let_def step_run fst_await in_case_sum in_run; auto?)
  then obtain post where p:
    "fst (call_contract cfg up contractAddress abi functionName args val feeRate)
             = AddTxIntention (call_intention contractAddress data val evmChain)
                 # FinalizeBTCTransaction is (nonzero feeRate) # SignIntention i is tid proto # post"
    "\<not> list_ex is_sign_intention post"
    unfolding list_ex_iff by blast
  have "(\<forall>tx. fin_tx btcTx = Some tx \<longrightarrow> tid = tx_id tx) \<and> (fin_tx btcTx = None \<longrightarrow> tid = [])"
    using f(6) by (auto simp: btcTxId_of_def or_else_def)
  with p f show ?thesis
    by (intro exI[of _ "call_intention contractAddress data val evmChain"] exI[of _ post]
          exI[of _ btcTx]) simp
qed


lemma cc_wait_timeout:
  assumes "WaitForTransactionReceipt h t
             \<in> set (fst (call_contract cfg up contractAddress abi functionName args val feeRate))"
    and "validateConfig cfg = Inr ()"
  shows "t = 60000
     \<and> (\<exists>res. snd (call_contract cfg up contractAddress abi functionName args val feeRate) = Inr res
            \<and> \<not> isError res
            \<and> (\<forall>e. waitForTransactionReceipt up h t = Inl e
                   \<longrightarrow> str_includes (content_text res) receipt_note))"
proof -
  from validateConfig_network[OF assms(2)] obtain net where net: "network cfg = Some net" by blast
  from cc_reach_wait[OF assms(1)] obtain evmChain data i btcTx signedEvmTx sent where f:
    "getEVMFromBitcoinNetwork up (network cfg) = Inr evmChain"
    "encodeFunctionData up abi functionName (or_nil args) = Inr data"
    "addTxIntention up (call_intention contractAddress data val evmChain) = Inr i"
    "finalizeBTCTransaction up [i] (nonzero feeRate) = Inr btcTx"
    "signIntention up i [i] (btcTxId_of btcTx) Bip322 = Inr signedEvmTx"
    "keccak256 up signedEvmTx = Inr h"
    "client_request up
      \<lparr>rpc_method = ''eth_sendBTCTransactions'',
        rpc_params = [HexList [signedEvmTx], HexString (btcTxHex_of btcTx)]\<rparr>
      \<lparr>retryCount = 0\<rparr> = Inr sent"
    "t = 60000" by blast
  show ?thesis
  proof (cases "waitForTransactionReceipt up h 60000")
    case (Inl e)
    show ?thesis
      using f net Inl
      by (simp add: call_contract_def sendBTCTransactions_def eval_run Let_def ok_result_def
            call_contract_text_note)
  next
    case (Inr blockNumber)
    show ?thesis
      using f net Inr
      by (simp add: call_contract_def sendBTCTransactions_def eval_run Let_def ok_result_def)
  qed
qed

subsection \<open>deploy-contract-source\<close>

lemma deploy_text_note:
  "str_includes (deploy_text tn a b c receipt_note v u e) receipt_note"
  unfolding deploy_text_def
  by (intro str_includes_appendI str_includes_self)

lemma auto_verify_returns: "\<exists>t v. auto_verify up sourceCode srcs base addr tn = (t, Inr v)"
proof -
  have "\<exists>v. snd (auto_verify up sourceCode srcs base addr tn) = Inr v"
    by (simp add: auto_verify_def snd_try_return split: sum.splits)
  then show ?thesis by (metis prod.collapse)
qed

lemma in_auto_verify:
  "x \<in> set (fst (auto_verify up sourceCode srcs base addr tn)) \<Longrightarrow> \<exists>url body. x = FetchPost url body"
  by (auto simp: auto_verify_def in_run Let_def split: if_splits)

lemma in_case_list:
  "x \<in> set (fst (case xs of [] \<Rightarrow> a | y # ys \<Rightarrow> b y ys)) \<longleftrightarrow>
     (xs = [] \<and> x \<in> set (fst a)) \<or> (\<exists>y ys. xs = y # ys \<and> x \<in> set (fst (b y ys)))"
  by (cases xs) simp_all

lemma in_case_option:
  "x \<in> set (fst (case opt of None \<Rightarrow> a | Some y \<Rightarrow> b y)) \<longleftrightarrow>
     (opt = None \<and> x \<in> set (fst a)) \<or> (\<exists>y. opt = Some y \<and> x \<in> set (fst (b y)))"
  by (cases opt) simp_all

lemma auto_verify_events:
  "SignIntention i is tid proto \<notin> set (fst (auto_verify up sourceCode srcs base addr tn))"
  "ClientRequest req opts \<notin> set (fst (auto_verify up sourceCode srcs base addr tn))"
  "WaitForTransactionReceipt h t \<notin> set (fst (auto_verify up sourceCode srcs base addr tn))"
  "FinalizeBTCTransaction is fr \<notin> set (fst (auto_verify up sourceCode srcs base addr tn))"
  using in_auto_verify by blast+

lemmas in_deploy = in_run in_case_list in_case_option auto_verify_events deref_Inr

lemma dc_reach_sign:
  assumes "SignIntention i is tid proto
             \<in> set (fst (deploy_compiled cfg up sourceCode contractName args feeRate srcs))"
  shows "\<exists>output targetName art evmChain data acct evmAddress nonce predicted btcTx.
    solc_compile up srcs = Inr output \<and>
    compile_errors output = [] \<and>
    default_target output contractName = Inr targetName \<and>
    find_artifact output targetName = Some (Some art) \<and>
    getEVMFromBitcoinNetwork up (network cfg) = Inr evmChain \<and>
    encodeDeployData up (artifact_abi art) (or_nil args) (with_0x (bytecode_object art)) = Inr data \<and>
    getDefaultAccount up = Inr acct \<and>
    getEVMAddress up acct (network cfg) = Inr evmAddress \<and>
    getTransactionCount up evmAddress = Inr nonce \<and>
    getContractAddress up evmAddress nonce = Inr predicted \<and>
    addTxIntention up (deploy_intention data evmChain targetName) = Inr i \<and>
    finalizeBTCTransaction up [i] (nonzero feeRate) = Inr btcTx \<and>
    is = [i] \<and> tid = btcTxId_of btcTx \<and> proto = Bip322"
  using assms
  by (simp add: deploy_compiled_def in_deploy Let_def sendBTCTransactions_def; blast?)



lemma dc_reach_wait:
  assumes "WaitForTransactionReceipt h t
             \<in> set (fst (deploy_compiled cfg up sourceCode contractName args feeRate srcs))"
  shows "\<exists>output targetName art evmChain data acct evmAddress nonce predicted i btcTx signedEvmTx sent.
    solc_compile up srcs = Inr output \<and>
    compile_errors output = [] \<and>
    default_target output contractName = Inr targetName \<and>
    find_artifact output targetName = Some (Some art) \<and>
    getEVMFromBitcoinNetwork up (network cfg) = Inr evmChain \<and>
    encodeDeployData up (artifact_abi art) (or_nil args) (with_0x (bytecode_object art)) = Inr data \<and>
    getDefaultAccount up = Inr acct \<and>
    getEVMAddress up acct (network cfg) = Inr evmAddress \<and>
    getTransactionCount up evmAddress = Inr nonce \<and>
    getContractAddress up evmAddress nonce = Inr predicted \<and>
    addTxIntention up (deploy_intention data evmChain targetName) = Inr i \<and>
    finalizeBTCTransaction up [i] (nonzero feeRate) = Inr btcTx \<and>
    signIntention up i [i] (btcTxId_of btcTx) Bip322 = Inr signedEvmTx \<and>
    keccak256 up signedEvmTx = Inr h \<and>
    client_request up
      \<lparr>rpc_method = ''eth_sendBTCTransactions'',
        rpc_params = [HexList [signedEvmTx], HexString (btcTxHex_of btcTx)]\<rparr>
      \<lparr>retryCount = 0\<rparr> = Inr sent \<and>
    t = 60000"
  using assms
  by (simp add: deploy_compiled_def in_deploy Let_def sendBTCTransactions_def; blast?)

lemma dc_sign_order:
  assumes "SignIntention i is tid proto
             \<in> set (fst (deploy_compiled cfg up sourceCode contractName args feeRate srcs))"
  shows "\<exists>addr req post btcTx.
           fst (deploy_compiled cfg up sourceCode contractName args feeRate srcs)
             = GetTransactionCount addr # AddTxIntention req
                 # FinalizeBTCTransaction is (nonzero feeRate) # SignIntention i is tid proto # post
         \<and> \<not> list_ex is_sign_intention post
         \<and> finalizeBTCTransaction up is (nonzero feeRate) = Inr btcTx
         \<and> proto = Bip322
         \<and> tid = btcTxId_of btcTx
         \<and> (\<forall>tx. fin_tx btcTx = Some tx \<longrightarrow> tid = tx_id tx)
         \<and> (fin_tx btcTx = None \<longrightarrow> tid = [])"
proof -
  from dc_reach_sign[OF assms]
  obtain compiled targetName art evmChain data acct evmAddress nonce predicted btcTx where f:
    "solc_compile up srcs = Inr compiled"
    "compile_errors compiled = []"
    "default_target compiled contractName = Inr targetName"
    "find_artifact compiled targetName = Some (Some art)"
    "getEVMFromBitcoinNetwork up (network cfg) = Inr evmChain"
    "encodeDeployData up (artifact_abi art) (or_nil args) (with_0x (bytecode_object art)) = Inr data"
    "getDefaultAccount up = Inr acct"
    "getEVMAddress up acct (network cfg) = Inr evmAddress"
    "getTransactionCount up evmAddress = Inr nonce"
    "getContractAddress up evmAddress nonce = Inr predicted"
    "addTxIntention up (deploy_intention data evmChain targetName) = Inr i"
    "finalizeBTCTransaction up [i] (nonzero feeRate) = Inr btcTx"
    "is = [i]" "tid = btcTxId_of btcTx" "proto = Bip322"
    by blast
  have "\<exists>post. fst (deploy_compiled cfg up sourceCode contractName args feeRate srcs)
             = GetTransactionCount evmAddress # AddTxIntention (deploy_intention data evmChain targetName)
                 # FinalizeBTCTransaction is (nonzero feeRate) # SignIntention i is tid proto # post
           \<and> (\<forall>e \<in> set post. \<not> is_sign_intention e)"
    using f
    by (simp add: deploy_compiled_def Let_def step_run fst_await in_case_sum in_deploy;
        (auto dest!: in_auto_verify)?)
  then obtain post where p:
    "fst (deploy_compiled cfg up sourceCode contractName args feeRate srcs)
             = GetTransactionCount evmAddress # AddTxIntention (deploy_intention data evmChain targetName)
                 # FinalizeBTCTransaction is (nonzero feeRate) # SignIntention i is tid proto # post"
    "\<not> list_ex is_sign_intention post"
    unfolding list_ex_iff by blast
  have "(\<forall>tx. fin_tx btcTx = Some tx \<longrightarrow> tid = tx_id tx) \<and> (fin_tx btcTx = None \<longrightarrow> tid = [])"
    using f(14) by (auto simp: btcTxId_of_def or_else_def)
  with p f show ?thesis
    by (intro exI[of _ evmAddress] exI[of _ "deploy_intention data evmChain targetName"]
          exI[of _ post] exI[of _ btcTx]) simp
qed


lemma dc_wait_timeout:
  assumes "WaitForTransactionReceipt h t
             \<in> set (fst (deploy_compiled cfg up sourceCode contractName args feeRate srcs))"
    and "validateConfig cfg = Inr ()"
  shows "t = 60000
     \<and> (\<exists>res. snd (deploy_compiled cfg up sourceCode contractName args feeRate srcs) = Inr res
            \<and> \<not> isError res
            \<and> (\<forall>e. waitForTransactionReceipt up h t = Inl e
                   \<longrightarrow> str_includes (content_text res) receipt_note))"
proof -
  from validateConfig_network[OF assms(2)] obtain net where net: "network cfg = Some net" by blast
  from dc_reach_wait[OF assms(1)]
  obtain compiled targetName art evmChain data acct evmAddress nonce predicted i btcTx signedEvmTx sent
    where f:
    "solc_compile up srcs = Inr compiled"
    "compile_errors compiled = []"
    "default_target compiled contractName = Inr targetName"
    "find_artifact compiled targetName = Some (Some art)"
    "getEVMFromBitcoinNetwork up (network cfg) = Inr evmChain"
    "encodeDeployData up (artifact_abi art) (or_nil args) (with_0x (bytecode_object art)) = Inr data"
    "getDefaultAccount up = Inr acct"
    "getEVMAddress up acct (network cfg) = Inr evmAddress"
    "getTransactionCount up evmAddress = Inr nonce"
    "getContractAddress up evmAddress nonce = Inr predicted"
    "addTxIntention up (deploy_intention data evmChain targetName) = Inr i"
    "finalizeBTCTransaction up [i] (nonzero feeRate) = Inr btcTx"
    "signIntention up i [i] (btcTxId_of btcTx) Bip322 = Inr signedEvmTx"
    "keccak256 up signedEvmTx = Inr h"
    "client_request up
      \<lparr>rpc_method = ''eth_sendBTCTransactions'',
        rpc_params = [HexList [signedEvmTx], HexString (btcTxHex_of btcTx)]\<rparr>
      \<lparr>retryCount = 0\<rparr> = Inr sent"
    "t = 60000" by blast
  obtain vt vinfo where v:
    "auto_verify up sourceCode srcs
       (if net_id net = ''regtest'' then ''https://blockscout.regtest.midl.xyz''
        else ''https://blockscout.midl.xyz'') predicted targetName = (vt, Inr vinfo)"
    using auto_verify_returns by blast
  show ?thesis
  proof (cases "waitForTransactionReceipt up h 60000")
    case (Inl e)
    show ?thesis
      using f net Inl v
      by (simp add: deploy_compiled_def sendBTCTransactions_def eval_run Let_def ok_result_def
            deploy_text_note)
  next
    case (Inr blockNumber)
    show ?thesis
      using f net Inr v
      by (simp add: deploy_compiled_def sendBTCTransactions_def eval_run Let_def ok_result_def)
  qed
qed

lemma deploy_source_cases:
  assumes "deploy_contract_source fuel cfg up sourceCode contractName args feeRate = Some r"
  shows "(\<exists>e st. resolveImports fuel (fetch_get up)
                    \<lparr>sources = [(''Contract.sol'', sourceCode)], downloads = []\<rparr> sourceCode
                  = (Raised e, st)
             \<and> fst r = map Fetch (downloads st)
             \<and> snd r = Inr (error_result (''Error in deploy-contract-source: '' @ e)))
       \<or> (\<exists>st. resolveImports fuel (fetch_get up)
                    \<lparr>sources = [(''Contract.sol'', sourceCode)], downloads = []\<rparr> sourceCode
                  = (Completed, st)
             \<and> fst r = map Fetch (downloads st)
                        @ fst (deploy_compiled cfg up sourceCode contractName args feeRate (sources st))
             \<and> snd r = (case snd (deploy_compiled cfg up sourceCode contractName args feeRate (sources st)) of
                          Inl e \<Rightarrow> Inr (error_result (''Error in deploy-contract-source: '' @ e))
                        | Inr v \<Rightarrow> Inr v))"
proof -
  obtain status st where rs:
    "resolveImports fuel (fetch_get up)
       \<lparr>sources = [(''Contract.sol'', sourceCode)], downloads = []\<rparr> sourceCode = (status, st)"
    by (cases "resolveImports fuel (fetch_get up)
       \<lparr>sources = [(''Contract.sol'', sourceCode)], downloads = []\<rparr> sourceCode") blast
  show ?thesis
  proof (cases status)
    case Completed
    with assms rs have "r = try_catch
                  (prepend (map Fetch (downloads st))
                     (deploy_compiled cfg up sourceCode contractName args feeRate (sources st)))
                  (\<lambda>message. return (error_result (''Error in deploy-contract-source: '' @ message)))"
      by (simp add: deploy_contract_source_def)
    then have "fst r = map Fetch (downloads st)
                        @ fst (deploy_compiled cfg up sourceCode contractName args feeRate (sources st))"
      and "snd r = (case snd (deploy_compiled cfg up sourceCode contractName args feeRate (sources st)) of
                          Inl e \<Rightarrow> Inr (error_result (''Error in deploy-contract-source: '' @ e))
                        | Inr v \<Rightarrow> Inr v)"
      by (simp_all only: fst_try_return snd_try_return fst_prepend snd_prepend)
    with rs Completed show ?thesis by blast
  next
    case (Raised e)
    with assms rs have "r = try_catch (map Fetch (downloads st), Inl e)
                  (\<lambda>message. return (error_result (''Error in deploy-contract-source: '' @ message)))"
      by (simp add: deploy_contract_source_def)
    then have "fst r = map Fetch (downloads st)"
      and "snd r = Inr (error_result (''Error in deploy-contract-source: '' @ e))"
      by (simp_all only: fst_try_return snd_try_return fst_conv snd_conv sum.case)
    with rs Raised show ?thesis by blast
  next
    case Unfinished
    with assms rs show ?thesis by (simp add: deploy_contract_source_def)
  qed
qed

lemma deploy_source_event:
  assumes "deploy_contract_source fuel cfg up sourceCode contractName args feeRate = Some r"
    and "ev \<in> set (fst r)" and "ev \<notin> range Fetch"
  shows "\<exists>st :: resolver. resolveImports fuel (fetch_get up)
                    \<lparr>sources = [(''Contract.sol'', sourceCode)], downloads = []\<rparr> sourceCode
                  = (Completed, st)
             \<and> fst r = map Fetch (downloads st)
                        @ fst (deploy_compiled cfg up sourceCode contractName args feeRate (sources st))
             \<and> snd r = (case snd (deploy_compiled cfg up sourceCode contractName args feeRate (sources st)) of
                          Inl e \<Rightarrow> Inr (error_result (''Error in deploy-contract-source: '' @ e))
                        | Inr v \<Rightarrow> Inr v)
             \<and> ev \<in> set (fst (deploy_compiled cfg up sourceCode contractName args feeRate (sources st)))"
  using deploy_source_cases[OF assms(1)] assms(2,3) by auto

lemma ds_sign_order:
  assumes "deploy_contract_source fuel cfg up sourceCode contractName args feeRate = Some r"
    and "SignIntention i is tid proto \<in> set (fst r)"
  shows "\<exists>urls addr req post btcTx.
           fst r = map Fetch urls @ GetTransactionCount addr # AddTxIntention req
                     # FinalizeBTCTransaction is (nonzero feeRate) # SignIntention i is tid proto # post
         \<and> \<not> list_ex is_sign_intention post
         \<and> finalizeBTCTransaction up is (nonzero feeRate) = Inr btcTx
         \<and> proto = Bip322
         \<and> tid = btcTxId_of btcTx
         \<and> (\<forall>tx. fin_tx btcTx = Some tx \<longrightarrow> tid = tx_id tx)
         \<and> (fin_tx btcTx = None \<longrightarrow> tid = [])"
proof -
  have "SignIntention i is tid proto \<notin> range Fetch" by auto
  from deploy_source_event[OF assms this] obtain st :: resolver where
    r: "fst r = map Fetch (downloads st)
                  @ fst (deploy_compiled cfg up sourceCode contractName args feeRate (sources st))"
    and m: "SignIntention i is tid proto
              \<in> set (fst (deploy_compiled cfg up sourceCode contractName args feeRate (sources st)))"
    by auto
  from dc_sign_order[OF m] r show ?thesis by (metis (no_types, lifting))
qed


lemma ds_wait_timeout:
  assumes "deploy_contract_source fuel cfg up sourceCode contractName args feeRate = Some r"
    and "WaitForTransactionReceipt h t \<in> set (fst r)"
    and "validateConfig cfg = Inr ()"
  shows "t = 60000
     \<and> (\<exists>res. snd r = Inr res \<and> \<not> isError res
            \<and> (\<forall>e. waitForTransactionReceipt up h t = Inl e
                   \<longrightarrow> str_includes (content_text res) receipt_note))"
proof -
  have "WaitForTransactionReceipt h t \<notin> range Fetch" by auto
  from deploy_source_event[OF assms(1,2) this] obtain st :: resolver where
    r: "snd r = (case snd (deploy_compiled cfg up sourceCode contractName args feeRate (sources st)) of
                          Inl e \<Rightarrow> Inr (error_result (''Error in deploy-contract-source: '' @ e))
                        | Inr v \<Rightarrow> Inr v)"
    and m: "WaitForTransactionReceipt h t
              \<in> set (fst (deploy_compiled cfg up sourceCode contractName args feeRate (sources st)))"
    by auto
  from dc_wait_timeout[OF m assms(3)] r show ?thesis by auto
qed

lemma fst_and_then:
  "fst (and_then m k) = fst m @ (case snd m of Inl e \<Rightarrow> [] | Inr v \<Rightarrow> fst (k v))"
  by (cases m; cases "snd m") (simp_all add: and_then_Inr and_then_Inl fst_prepend)

lemma demo_imports: "import_matches ''contract Counter {}'' = []"
  by (simp add: match_import_def startsWith_def)

lemma demo_resolve:
  "resolveImports 1 f \<lparr>sources = [(''Contract.sol'', ''contract Counter {}'')], downloads = []\<rparr>
     ''contract Counter {}''
   = (Completed, \<lparr>sources = [(''Contract.sol'', ''contract Counter {}'')], downloads = []\<rparr>)"
  using demo_imports by (simp add: One_nat_def del: import_matches.simps)

lemma demo_deploy_compiled:
  "up = demo_upstream \<or> up = demo_timeout \<Longrightarrow>
   \<exists>post. fst (deploy_compiled demo_state up ''contract Counter {}'' None None None
               [(''Contract.sol'', ''contract Counter {}'')])
     = [GetTransactionCount ''0x00a1'',
        AddTxIntention (deploy_intention ''0x6080'' \<lparr>chain_id = 777\<rparr> (Some ''Counter'')),
        FinalizeBTCTransaction [deploy_intention ''0x6080'' \<lparr>chain_id = 777\<rparr> (Some ''Counter'')] None,
        SignIntention (deploy_intention ''0x6080'' \<lparr>chain_id = 777\<rparr> (Some ''Counter''))
          [deploy_intention ''0x6080'' \<lparr>chain_id = 777\<rparr> (Some ''Counter'')] ''beef01'' Bip322,
        ClientRequest \<lparr>rpc_method = ''eth_sendBTCTransactions'',
                       rpc_params = [HexList [''0x02f8beef01''], HexString ''020000'']\<rparr>
                      \<lparr>retryCount = 0\<rparr>,
        WaitForTransactionReceipt ''0x9c22'' 60000] @ post"
  by (elim disjE; simp add: deploy_compiled_def demo_upstream_def demo_timeout_def demo_state_def Let_def
        compile_errors_def default_target_def find_artifact_def template_str_def with_0x_def startsWith_def
        object_prototype_members_def
        or_nil_def nonzero_def btcTxId_of_def btcTxHex_of_def or_else_def
        step_run fst_await fst_and_then fst_try_return)

lemma demo_deploy:
  "up = demo_upstream \<or> up = demo_timeout \<Longrightarrow>
   \<exists>r post. deploy_contract_source 1 demo_state up ''contract Counter {}'' None None None = Some r
     \<and> fst r
     = [GetTransactionCount ''0x00a1'',
        AddTxIntention (deploy_intention ''0x6080'' \<lparr>chain_id = 777\<rparr> (Some ''Counter'')),
        FinalizeBTCTransaction [deploy_intention ''0x6080'' \<lparr>chain_id = 777\<rparr> (Some ''Counter'')] None,
        SignIntention (deploy_intention ''0x6080'' \<lparr>chain_id = 777\<rparr> (Some ''Counter''))
          [deploy_intention ''0x6080'' \<lparr>chain_id = 777\<rparr> (Some ''Counter'')] ''beef01'' Bip322,
        ClientRequest \<lparr>rpc_method = ''eth_sendBTCTransactions'',
                       rpc_params = [HexList [''0x02f8beef01''], HexString ''020000'']\<rparr>
                      \<lparr>retryCount = 0\<rparr>,
        WaitForTransactionReceipt ''0x9c22'' 60000] @ post"
proof -
  assume u: "up = demo_upstream \<or> up = demo_timeout"
  from demo_deploy_compiled[OF u] obtain post where p:
    "fst (deploy_compiled demo_state up ''contract Counter {}'' None None None
               [(''Contract.sol'', ''contract Counter {}'')])
     = [GetTransactionCount ''0x00a1'',
        AddTxIntention (deploy_intention ''0x6080'' \<lparr>chain_id = 777\<rparr> (Some ''Counter'')),
        FinalizeBTCTransaction [deploy_intention ''0x6080'' \<lparr>chain_id = 777\<rparr> (Some ''Counter'')] None,
        SignIntention (deploy_intention ''0x6080'' \<lparr>chain_id = 777\<rparr> (Some ''Counter''))
          [deploy_intention ''0x6080'' \<lparr>chain_id = 777\<rparr> (Some ''Counter'')] ''beef01'' Bip322,
        ClientRequest \<lparr>rpc_method = ''eth_sendBTCTransactions'',
                       rpc_params = [HexList [''0x02f8beef01''], HexString ''020000'']\<rparr>
                      \<lparr>retryCount = 0\<rparr>,
        WaitForTransactionReceipt ''0x9c22'' 60000] @ post" by blast
  have "\<exists>r. deploy_contract_source 1 demo_state up ''contract Counter {}'' None None None = Some r
          \<and> fst r = fst (deploy_compiled demo_state up ''contract Counter {}'' None None None
               [(''Contract.sol'', ''contract Counter {}'')])"
    by (simp only: deploy_contract_source_def demo_resolve prod.case resolve_status.case
          resolver.simps list.map fst_try_return fst_prepend append_Nil option.inject simp_thms ex_simps)
  with p show ?thesis by metis
qed


lemma call_contract_demo_events:
  "up = demo_upstream \<or> up = demo_timeout \<Longrightarrow>
   \<exists>post. fst (call_contract demo_state up ''0x00c7'' [] ''set'' None None None)
     = [AddTxIntention (call_intention ''0x00c7'' ''0x60fe47b1'' None \<lparr>chain_id = 777\<rparr>),
        FinalizeBTCTransaction [call_intention ''0x00c7'' ''0x60fe47b1'' None \<lparr>chain_id = 777\<rparr>] None,
        SignIntention (call_intention ''0x00c7'' ''0x60fe47b1'' None \<lparr>chain_id = 777\<rparr>) [call_intention ''0x00c7'' ''0x60fe47b1'' None \<lparr>chain_id = 777\<rparr>] ''beef01'' Bip322,
        ClientRequest \<lparr>rpc_method = ''eth_sendBTCTransactions'',
                       rpc_params = [HexList [''0x02f8beef01''], HexString ''020000'']\<rparr>
                      \<lparr>retryCount = 0\<rparr>,
        WaitForTransactionReceipt ''0x9c22'' 60000] @ post"
  by (elim disjE; simp add: call_contract_def demo_upstream_def demo_timeout_def demo_state_def Let_def
        or_nil_def nonzero_def btcTxId_of_def btcTxHex_of_def or_else_def
        step_run fst_await fst_and_then fst_try_return)

text \<open>
  C3.  In \<open>call-contract\<close> and \<open>deploy-contract-source\<close>, whenever \<open>signIntention\<close> is called,
  the call right before it is \<open>finalizeBTCTransaction\<close> on the same intentions, which has
  succeeded; nothing is signed before or after it in the same invocation; the protocol is
  BIP322; and the \<open>txId\<close> passed is the id of the transaction that \<open>finalizeBTCTransaction\<close>
  returned (the empty string if it returned no transaction).
\<close>

theorem sign_intention_follows_finalize:
  "(SignIntention i intentions tid proto
      \<in> set (fst (call_contract cfg up contractAddress abi functionName args val feeRate))
    \<longrightarrow> (\<exists>req post btcTx.
           fst (call_contract cfg up contractAddress abi functionName args val feeRate)
             = AddTxIntention req # FinalizeBTCTransaction intentions (nonzero feeRate)
                 # SignIntention i intentions tid proto # post
         \<and> \<not> list_ex is_sign_intention post
         \<and> finalizeBTCTransaction up intentions (nonzero feeRate) = Inr btcTx
         \<and> proto = Bip322
         \<and> tid = btcTxId_of btcTx
         \<and> (\<forall>tx. fin_tx btcTx = Some tx \<longrightarrow> tid = tx_id tx)
         \<and> (fin_tx btcTx = None \<longrightarrow> tid = [])))
   \<and> (deploy_contract_source fuel cfg up sourceCode contractName args feeRate = Some r
        \<and> SignIntention i intentions tid proto \<in> set (fst r)
    \<longrightarrow> (\<exists>urls addr req post btcTx.
           fst r = map Fetch urls @ GetTransactionCount addr # AddTxIntention req
                     # FinalizeBTCTransaction intentions (nonzero feeRate) # SignIntention i intentions tid proto # post
         \<and> \<not> list_ex is_sign_intention post
         \<and> finalizeBTCTransaction up intentions (nonzero feeRate) = Inr btcTx
         \<and> proto = Bip322
         \<and> tid = btcTxId_of btcTx
         \<and> (\<forall>tx. fin_tx btcTx = Some tx \<longrightarrow> tid = tx_id tx)
         \<and> (fin_tx btcTx = None \<longrightarrow> tid = [])))"
  using cc_sign_order[of i intentions tid proto cfg up contractAddress abi functionName args val feeRate]
    ds_sign_order[of fuel cfg up sourceCode contractName args feeRate r i intentions tid proto]
  by blast

theorem sign_intention_follows_finalize_witness:
  "SignIntention (call_intention ''0x00c7'' ''0x60fe47b1'' None \<lparr>chain_id = 777\<rparr>) [call_intention ''0x00c7'' ''0x60fe47b1'' None \<lparr>chain_id = 777\<rparr>] ''beef01'' Bip322
     \<in> set (fst (call_contract demo_state demo_upstream ''0x00c7'' [] ''set'' None None None))
   \<and> finalizeBTCTransaction demo_upstream [call_intention ''0x00c7'' ''0x60fe47b1'' None \<lparr>chain_id = 777\<rparr>] None
       = Inr \<lparr>fin_psbt = ''cHNidP8BAA=='', fin_tx = Some \<lparr>tx_id = ''beef01'', tx_hex = ''020000''\<rparr>\<rparr>
   \<and> (\<exists>req post.
         fst (call_contract demo_state demo_upstream ''0x00c7'' [] ''set'' None None None)
           = AddTxIntention req # FinalizeBTCTransaction [call_intention ''0x00c7'' ''0x60fe47b1'' None \<lparr>chain_id = 777\<rparr>] (nonzero None)
               # SignIntention (call_intention ''0x00c7'' ''0x60fe47b1'' None \<lparr>chain_id = 777\<rparr>) [call_intention ''0x00c7'' ''0x60fe47b1'' None \<lparr>chain_id = 777\<rparr>] ''beef01'' Bip322 # post
         \<and> \<not> list_ex is_sign_intention post)
   \<and> (\<exists>r urls addr req post.
         deploy_contract_source 1 demo_state demo_upstream ''contract Counter {}'' None None None = Some r
         \<and> fst r = map Fetch urls @ GetTransactionCount addr # AddTxIntention req
             # FinalizeBTCTransaction [deploy_intention ''0x6080'' \<lparr>chain_id = 777\<rparr> (Some ''Counter'')] (nonzero None)
             # SignIntention (deploy_intention ''0x6080'' \<lparr>chain_id = 777\<rparr> (Some ''Counter'')) [deploy_intention ''0x6080'' \<lparr>chain_id = 777\<rparr> (Some ''Counter'')] ''beef01'' Bip322 # post
         \<and> \<not> list_ex is_sign_intention post)"
proof -
  have c: "SignIntention (call_intention ''0x00c7'' ''0x60fe47b1'' None \<lparr>chain_id = 777\<rparr>) [call_intention ''0x00c7'' ''0x60fe47b1'' None \<lparr>chain_id = 777\<rparr>] ''beef01'' Bip322
     \<in> set (fst (call_contract demo_state demo_upstream ''0x00c7'' [] ''set'' None None None))"
    using call_contract_demo_events[of demo_upstream] by auto
  have f: "finalizeBTCTransaction demo_upstream [call_intention ''0x00c7'' ''0x60fe47b1'' None \<lparr>chain_id = 777\<rparr>] None
       = Inr \<lparr>fin_psbt = ''cHNidP8BAA=='', fin_tx = Some \<lparr>tx_id = ''beef01'', tx_hex = ''020000''\<rparr>\<rparr>"
    by (simp add: demo_upstream_def)
  from demo_deploy[of demo_upstream] obtain r where r:
    "deploy_contract_source 1 demo_state demo_upstream ''contract Counter {}'' None None None = Some r"
    "SignIntention (deploy_intention ''0x6080'' \<lparr>chain_id = 777\<rparr> (Some ''Counter'')) [deploy_intention ''0x6080'' \<lparr>chain_id = 777\<rparr> (Some ''Counter'')] ''beef01'' Bip322 \<in> set (fst r)"
    by auto
  from sign_intention_follows_finalize[where i="call_intention ''0x00c7'' ''0x60fe47b1'' None \<lparr>chain_id = 777\<rparr>" and intentions="[call_intention ''0x00c7'' ''0x60fe47b1'' None \<lparr>chain_id = 777\<rparr>]" and tid="''beef01''"
         and proto=Bip322 and cfg=demo_state and up=demo_upstream and contractAddress="''0x00c7''"
         and abi="[]" and functionName="''set''" and args=None and val=None and feeRate=None] c
  have a: "\<exists>req post.
         fst (call_contract demo_state demo_upstream ''0x00c7'' [] ''set'' None None None)
           = AddTxIntention req # FinalizeBTCTransaction [call_intention ''0x00c7'' ''0x60fe47b1'' None \<lparr>chain_id = 777\<rparr>] (nonzero None)
               # SignIntention (call_intention ''0x00c7'' ''0x60fe47b1'' None \<lparr>chain_id = 777\<rparr>) [call_intention ''0x00c7'' ''0x60fe47b1'' None \<lparr>chain_id = 777\<rparr>] ''beef01'' Bip322 # post
         \<and> \<not> list_ex is_sign_intention post"
    by blast
  from sign_intention_follows_finalize[where i="deploy_intention ''0x6080'' \<lparr>chain_id = 777\<rparr> (Some ''Counter'')" and intentions="[deploy_intention ''0x6080'' \<lparr>chain_id = 777\<rparr> (Some ''Counter'')]" and tid="''beef01''"
         and proto=Bip322 and cfg=demo_state and up=demo_upstream and fuel=1
         and sourceCode="''contract Counter {}''" and contractName=None and args=None
         and feeRate=None and r=r] r
  have b: "\<exists>urls addr req post.
         fst r = map Fetch urls @ GetTransactionCount addr # AddTxIntention req
             # FinalizeBTCTransaction [deploy_intention ''0x6080'' \<lparr>chain_id = 777\<rparr> (Some ''Counter'')] (nonzero None)
             # SignIntention (deploy_intention ''0x6080'' \<lparr>chain_id = 777\<rparr> (Some ''Counter'')) [deploy_intention ''0x6080'' \<lparr>chain_id = 777\<rparr> (Some ''Counter'')] ''beef01'' Bip322 # post
         \<and> \<not> list_ex is_sign_intention post"
    by blast
  from c f a b r(1) show ?thesis by blast
qed



text \<open>
  C5.  In \<open>call-contract\<close> and \<open>deploy-contract-source\<close>, registered on a validated
  configuration, the receipt poll is made with a timeout of 60000 ms, and a run that gets
  as far as the poll returns a result without \<open>isError\<close>, whatever the poll's outcome; when
  the poll times out or fails, the text of the result carries the note that the
  transaction was submitted and is waiting for confirmation.
\<close>

theorem receipt_timeout_is_success:
  "(WaitForTransactionReceipt h t
      \<in> set (fst (call_contract cfg up contractAddress abi functionName args val feeRate))
    \<and> validateConfig cfg = Inr ()
    \<longrightarrow> t = 60000
      \<and> (\<exists>res. snd (call_contract cfg up contractAddress abi functionName args val feeRate) = Inr res
            \<and> \<not> isError res
            \<and> (\<forall>e. waitForTransactionReceipt up h t = Inl e
                   \<longrightarrow> str_includes (content_text res) receipt_note)))
   \<and> (deploy_contract_source fuel cfg up sourceCode contractName args feeRate = Some r
        \<and> WaitForTransactionReceipt h t \<in> set (fst r)
        \<and> validateConfig cfg = Inr ()
    \<longrightarrow> t = 60000
      \<and> (\<exists>res. snd r = Inr res \<and> \<not> isError res
            \<and> (\<forall>e. waitForTransactionReceipt up h t = Inl e
                   \<longrightarrow> str_includes (content_text res) receipt_note)))
   \<and> str_includes receipt_note ''Transaction submitted, waiting for confirmation''"
proof -
  have "receipt_note = (nl @ ''Note: '') @ ''Transaction submitted, waiting for confirmation'' @ ''...''"
    by (simp add: receipt_note_def)
  then have "str_includes receipt_note ''Transaction submitted, waiting for confirmation''"
    using str_includes_iff by blast
  then show ?thesis
    using cc_wait_timeout[of h t cfg up contractAddress abi functionName args val feeRate]
      ds_wait_timeout[of fuel cfg up sourceCode contractName args feeRate r h t]
    by blast
qed

lemma demo_state_valid: "validateConfig demo_state = Inr ()"
  by (simp add: validateConfig_def demo_state_def toLowerCase_def lower_char_def startsWith_def)

theorem receipt_timeout_is_success_witness:
  "WaitForTransactionReceipt ''0x9c22'' 60000
     \<in> set (fst (call_contract demo_state demo_timeout ''0x00c7'' [] ''set'' None None None))
   \<and> validateConfig demo_state = Inr ()
   \<and> (\<exists>e. waitForTransactionReceipt demo_timeout ''0x9c22'' 60000 = Inl e)
   \<and> (\<exists>res. snd (call_contract demo_state demo_timeout ''0x00c7'' [] ''set'' None None None) = Inr res
          \<and> \<not> isError res \<and> str_includes (content_text res) receipt_note)
   \<and> (\<exists>r res. deploy_contract_source 1 demo_state demo_timeout ''contract Counter {}'' None None None
                 = Some r
          \<and> WaitForTransactionReceipt ''0x9c22'' 60000 \<in> set (fst r)
          \<and> snd r = Inr res \<and> \<not> isError res \<and> str_includes (content_text res) receipt_note)"
proof -
  have c: "WaitForTransactionReceipt ''0x9c22'' 60000
     \<in> set (fst (call_contract demo_state demo_timeout ''0x00c7'' [] ''set'' None None None))"
    using call_contract_demo_events[of demo_timeout] by auto
  have w: "waitForTransactionReceipt demo_timeout ''0x9c22'' 60000
             = Inl ''Timed out while waiting for transaction''"
    by (simp add: demo_timeout_def)
  from demo_deploy[of demo_timeout] obtain r where r:
    "deploy_contract_source 1 demo_state demo_timeout ''contract Counter {}'' None None None = Some r"
    "WaitForTransactionReceipt ''0x9c22'' 60000 \<in> set (fst r)"
    by auto
  from receipt_timeout_is_success[where h="''0x9c22''" and t=60000 and cfg=demo_state
         and up=demo_timeout and contractAddress="''0x00c7''" and abi="[]" and functionName="''set''"
         and args=None and val=None and feeRate=None] c demo_state_valid w
  have a: "\<exists>res. snd (call_contract demo_state demo_timeout ''0x00c7'' [] ''set'' None None None) = Inr res
          \<and> \<not> isError res \<and> str_includes (content_text res) receipt_note"
    by blast
  from receipt_timeout_is_success[where h="''0x9c22''" and t=60000 and cfg=demo_state
         and up=demo_timeout and fuel=1 and sourceCode="''contract Counter {}''" and contractName=None
         and args=None and feeRate=None and r=r] r demo_state_valid w
  have b: "\<exists>res. snd r = Inr res \<and> \<not> isError res \<and> str_includes (content_text res) receipt_note"
    by blast
  from c demo_state_valid w a b r show ?thesis by blast
qed

subsection \<open>estimate-btc-transfer-fee\<close>

lemma estimate_fee_rate:
  assumes "nonzero feeRate = Some rate
         \<or> (nonzero feeRate = None \<and> (\<exists>rates. getFeeRate up = Inr rates \<and> rate = hourFee rates))"
  shows "(case nonzero feeRate of
          Some rate \<Rightarrow> return rate
        | None \<Rightarrow> await GetFeeRate (getFeeRate up) (\<lambda>rates. return (hourFee rates)))
        = ((case nonzero feeRate of Some x \<Rightarrow> [] | None \<Rightarrow> [GetFeeRate]), Inr rate)"
  using assms by (auto simp: eval_run)

lemma estimate_insufficient:
  assumes "find_account cfg up from_address = Inr (Some acc)"
    and "nonzero feeRate = Some rate
         \<or> (nonzero feeRate = None \<and> (\<exists>rates. getFeeRate up = Inr rates \<and> rate = hourFee rates))"
    and "getUTXOs up (account_address acc) = Inr utxos"
    and "selected = coinSelect up utxos
                  (map (\<lambda>r. \<lparr>target_address = recipient_address r,
                              target_value = recipient_amount r\<rparr>) recipients) rate"
    and "sel_inputs selected = None \<or> sel_outputs selected = None"
  shows "snd (estimate_btc_transfer_fee cfg up recipients feeRate from_address) = Inr insufficient_funds"
  unfolding estimate_btc_transfer_fee_def estimate_fee_rate[OF assms(2)]
  using assms(1,3,4,5)
  by (cases "sel_inputs selected"; cases "sel_outputs selected")
     (simp_all add: attempt_Inr await_Inr and_then_Inr snd_prepend snd_return Let_def)

lemma estimate_selected:
  assumes "find_account cfg up from_address = Inr (Some acc)"
    and "nonzero feeRate = Some rate
         \<or> (nonzero feeRate = None \<and> (\<exists>rates. getFeeRate up = Inr rates \<and> rate = hourFee rates))"
    and "getUTXOs up (account_address acc) = Inr utxos"
    and "selected = coinSelect up utxos
                  (map (\<lambda>r. \<lparr>target_address = recipient_address r,
                              target_value = recipient_amount r\<rparr>) recipients) rate"
    and "sel_inputs selected = Some inputs" and "sel_outputs selected = Some outputs"
  shows "snd (estimate_btc_transfer_fee cfg up recipients feeRate from_address)
         = Inr (ok_result (estimate_text (show_int (sel_fee selected))
                             (satoshisToBtc up (sel_fee selected)) (show_int rate)
                             (show_nat (length inputs)) (show_nat (length outputs))))"
  unfolding estimate_btc_transfer_fee_def estimate_fee_rate[OF assms(2)]
  using assms(1,3,4,5,6)
  by (simp add: attempt_Inr await_Inr and_then_Inr snd_prepend snd_return Let_def)

text \<open>
  C6.  Once \<open>estimate-btc-transfer-fee\<close> has its account, its fee rate and the UTXO set, the
  result is decided by \<open>coinSelect\<close>: without inputs or without outputs the tool returns
  the insufficient-funds error result; otherwise it returns the success payload whose text
  is exactly the four lines with the fee of the selection, the fee rate used and the
  numbers of selected inputs and outputs, in decimal.
\<close>

theorem estimate_fee_by_coin_selection:
  "find_account cfg up from_address = Inr (Some acc)
   \<and> (nonzero feeRate = Some rate
       \<or> (nonzero feeRate = None \<and> (\<exists>rates. getFeeRate up = Inr rates \<and> rate = hourFee rates)))
   \<and> getUTXOs up (account_address acc) = Inr utxos
   \<and> selected = coinSelect up utxos
                  (map (\<lambda>r. \<lparr>target_address = recipient_address r,
                              target_value = recipient_amount r\<rparr>) recipients) rate
   \<longrightarrow>
     ((sel_inputs selected = None \<or> sel_outputs selected = None)
        \<longrightarrow> snd (estimate_btc_transfer_fee cfg up recipients feeRate from_address)
              = Inr \<lparr>content_text =
                       ''Error: Insufficient funds or no suitable UTXOs found for this transfer.'',
                     isError = True\<rparr>)
     \<and> (\<forall>inputs outputs. sel_inputs selected = Some inputs \<and> sel_outputs selected = Some outputs
        \<longrightarrow> snd (estimate_btc_transfer_fee cfg up recipients feeRate from_address)
              = Inr \<lparr>content_text =
                       ''Estimated Fee: '' @ show_int (sel_fee selected) @ '' satoshis (''
                         @ satoshisToBtc up (sel_fee selected) @ '' BTC)'' @ [CHR 0x0A]
                       @ ''Fee Rate: '' @ show_int rate @ '' sat/vB'' @ [CHR 0x0A]
                       @ ''Inputs: '' @ show_nat (length inputs) @ [CHR 0x0A]
                       @ ''Outputs: '' @ show_nat (length outputs),
                     isError = False\<rparr>)"
proof (intro impI, elim conjE)
  assume a: "find_account cfg up from_address = Inr (Some acc)"
    "nonzero feeRate = Some rate
     \<or> (nonzero feeRate = None \<and> (\<exists>rates. getFeeRate up = Inr rates \<and> rate = hourFee rates))"
    "getUTXOs up (account_address acc) = Inr utxos"
    "selected = coinSelect up utxos
                (map (\<lambda>r. \<lparr>target_address = recipient_address r,
                            target_value = recipient_amount r\<rparr>) recipients) rate"
  have none: "sel_inputs selected = None \<or> sel_outputs selected = None
        \<longrightarrow> snd (estimate_btc_transfer_fee cfg up recipients feeRate from_address)
              = Inr insufficient_funds"
    using estimate_insufficient[OF a] by blast
  have some: "\<forall>inputs outputs. sel_inputs selected = Some inputs \<and> sel_outputs selected = Some outputs
        \<longrightarrow> snd (estimate_btc_transfer_fee cfg up recipients feeRate from_address)
              = Inr (ok_result (estimate_text (show_int (sel_fee selected))
                                     (satoshisToBtc up (sel_fee selected)) (show_int rate)
                                     (show_nat (length inputs)) (show_nat (length outputs))))"
    using estimate_selected[OF a] by blast
  have i: "insufficient_funds
             = \<lparr>content_text =
                  ''Error: Insufficient funds or no suitable UTXOs found for this transfer.'',
                isError = True\<rparr>"
    by (simp add: insufficient_funds_def error_result_def)
  have t: "ok_result (estimate_text fee feeBtc r ni no)
             = \<lparr>content_text =
                  ''Estimated Fee: '' @ fee @ '' satoshis ('' @ feeBtc @ '' BTC)'' @ [CHR 0x0A]
                  @ ''Fee Rate: '' @ r @ '' sat/vB'' @ [CHR 0x0A]
                  @ ''Inputs: '' @ ni @ [CHR 0x0A]
                  @ ''Outputs: '' @ no,
                isError = False\<rparr>" for fee feeBtc r ni no
    by (simp add: ok_result_def estimate_text_def nl_def)
  from none some show
    "((sel_inputs selected = None \<or> sel_outputs selected = None)
        \<longrightarrow> snd (estimate_btc_transfer_fee cfg up recipients feeRate from_address)
              = Inr \<lparr>content_text =
                       ''Error: Insufficient funds or no suitable UTXOs found for this transfer.'',
                     isError = True\<rparr>)
     \<and> (\<forall>inputs outputs. sel_inputs selected = Some inputs \<and> sel_outputs selected = Some outputs
        \<longrightarrow> snd (estimate_btc_transfer_fee cfg up recipients feeRate from_address)
              = Inr \<lparr>content_text =
                       ''Estimated Fee: '' @ show_int (sel_fee selected) @ '' satoshis (''
                         @ satoshisToBtc up (sel_fee selected) @ '' BTC)'' @ [CHR 0x0A]
                       @ ''Fee Rate: '' @ show_int rate @ '' sat/vB'' @ [CHR 0x0A]
                       @ ''Inputs: '' @ show_nat (length inputs) @ [CHR 0x0A]
                       @ ''Outputs: '' @ show_nat (length outputs),
                     isError = False\<rparr>)"
    unfolding i t by blast
qed

lemma demo_find_account: "find_account demo_state up None = getDefaultAccount up"
  by (simp add: find_account_def)

lemma demo_decimals:
  "show_int 500 = ''500''" "show_int 5 = ''5''" "show_nat (Suc 0) = ''1''"
  by code_simp+

theorem estimate_fee_by_coin_selection_witness:
  "find_account demo_state demo_upstream None = Inr (Some demo_account)
   \<and> nonzero (Some 5) = Some 5
   \<and> getUTXOs demo_upstream (account_address demo_account)
       = Inr [\<lparr>utxo_txid = ''aa00'', utxo_vout = 0, utxo_value = 15000\<rparr>]
   \<and> coinSelect demo_upstream [\<lparr>utxo_txid = ''aa00'', utxo_vout = 0, utxo_value = 15000\<rparr>]
        [\<lparr>target_address = ''bcrt1qdest'', target_value = 10000\<rparr>] 5
       = \<lparr>sel_inputs = Some [\<lparr>utxo_txid = ''aa00'', utxo_vout = 0, utxo_value = 15000\<rparr>],
          sel_outputs = Some [\<lparr>target_address = ''bcrt1qdest'', target_value = 10000\<rparr>],
          sel_fee = 500\<rparr>
   \<and> snd (estimate_btc_transfer_fee demo_state demo_upstream
            [\<lparr>recipient_address = ''bcrt1qdest'', recipient_amount = 10000\<rparr>] (Some 5) None)
       = Inr \<lparr>content_text =
                ''Estimated Fee: 500 satoshis (0.00000500 BTC)'' @ [CHR 0x0A]
                @ ''Fee Rate: 5 sat/vB'' @ [CHR 0x0A]
                @ ''Inputs: 1'' @ [CHR 0x0A]
                @ ''Outputs: 1'',
              isError = False\<rparr>
   \<and> snd (estimate_btc_transfer_fee demo_state
             (demo_upstream\<lparr>coinSelect := (\<lambda>utxos targets feeRate.
                 \<lparr>sel_inputs = None, sel_outputs = None, sel_fee = 1130\<rparr>)\<rparr>)
             [\<lparr>recipient_address = ''bcrt1qdest'', recipient_amount = 10000\<rparr>] (Some 5) None)
       = Inr \<lparr>content_text =
                ''Error: Insufficient funds or no suitable UTXOs found for this transfer.'',
              isError = True\<rparr>"
proof -
  let ?u = "[\<lparr>utxo_txid = ''aa00'', utxo_vout = 0, utxo_value = 15000\<rparr>]"
  let ?t = "[\<lparr>target_address = ''bcrt1qdest'', target_value = 10000\<rparr>]"
  let ?r = "[\<lparr>recipient_address = ''bcrt1qdest'', recipient_amount = 10000\<rparr>]"
  let ?up2 = "demo_upstream\<lparr>coinSelect := (\<lambda>utxos targets feeRate.
                 \<lparr>sel_inputs = None, sel_outputs = None, sel_fee = 1130\<rparr>)\<rparr>"
  have a: "find_account demo_state demo_upstream None = Inr (Some demo_account)"
      "find_account demo_state ?up2 None = Inr (Some demo_account)"
    by (simp_all add: demo_find_account demo_upstream_def)
  have n: "nonzero (Some 5) = Some 5" by (simp add: nonzero_def)
  have g: "getUTXOs demo_upstream (account_address demo_account) = Inr ?u"
      "getUTXOs ?up2 (account_address demo_account) = Inr ?u"
    by (simp_all add: demo_upstream_def)
  have m: "map (\<lambda>r. \<lparr>target_address = recipient_address r, target_value = recipient_amount r\<rparr>) ?r = ?t"
    by simp
  have c: "coinSelect demo_upstream ?u ?t 5 = \<lparr>sel_inputs = Some ?u, sel_outputs = Some ?t, sel_fee = 500\<rparr>"
      "coinSelect ?up2 ?u ?t 5 = \<lparr>sel_inputs = None, sel_outputs = None, sel_fee = 1130\<rparr>"
    by (simp_all add: demo_upstream_def)
  have b: "satoshisToBtc demo_upstream 500 = ''0.00000500''" by (simp add: demo_upstream_def)
  from estimate_fee_by_coin_selection[where cfg=demo_state and up=demo_upstream and from_address=None
         and acc=demo_account and feeRate="Some 5" and rate=5 and utxos="?u"
         and selected="coinSelect demo_upstream ?u ?t 5" and recipients="?r"] a(1) n g(1) m
  have p1: "\<forall>inputs outputs. sel_inputs (coinSelect demo_upstream ?u ?t 5) = Some inputs
              \<and> sel_outputs (coinSelect demo_upstream ?u ?t 5) = Some outputs
        \<longrightarrow> snd (estimate_btc_transfer_fee demo_state demo_upstream ?r (Some 5) None)
              = Inr \<lparr>content_text =
                       ''Estimated Fee: '' @ show_int (sel_fee (coinSelect demo_upstream ?u ?t 5))
                         @ '' satoshis (''
                         @ satoshisToBtc demo_upstream (sel_fee (coinSelect demo_upstream ?u ?t 5))
                         @ '' BTC)'' @ [CHR 0x0A]
                       @ ''Fee Rate: '' @ show_int 5 @ '' sat/vB'' @ [CHR 0x0A]
                       @ ''Inputs: '' @ show_nat (length inputs) @ [CHR 0x0A]
                       @ ''Outputs: '' @ show_nat (length outputs),
                     isError = False\<rparr>"
    by simp
  have p1': "snd (estimate_btc_transfer_fee demo_state demo_upstream ?r (Some 5) None)
       = Inr \<lparr>content_text =
                ''Estimated Fee: 500 satoshis (0.00000500 BTC)'' @ [CHR 0x0A]
                @ ''Fee Rate: 5 sat/vB'' @ [CHR 0x0A]
                @ ''Inputs: 1'' @ [CHR 0x0A]
                @ ''Outputs: 1'',
              isError = False\<rparr>"
    using p1[rule_format, of ?u ?t] c(1) b by (simp add: demo_decimals del: show_nat.simps)
  from estimate_fee_by_coin_selection[where cfg=demo_state and up="?up2" and from_address=None
         and acc=demo_account and feeRate="Some 5" and rate=5 and utxos="?u"
         and selected="coinSelect ?up2 ?u ?t 5" and recipients="?r"] a(2) n g(2) m c(2)
  have p2: "snd (estimate_btc_transfer_fee demo_state ?up2 ?r (Some 5) None)
       = Inr \<lparr>content_text =
                ''Error: Insufficient funds or no suitable UTXOs found for this transfer.'',
              isError = True\<rparr>"
    by simp
  from a(1) n g(1) c(1) p1' p2 show ?thesis by simp
qed

text \<open>
  C8.  The claim does not hold of the code: \<open>estimate-btc-transfer-fee\<close> awaits its
  providers outside any \<open>try\<close>/\<open>catch\<close>, so when the UTXO provider rejects, the handler ends
  with that exception instead of an error result.
\<close>

theorem estimate_fee_rejection_escapes:
  "estimate_btc_transfer_fee demo_state demo_unreachable
     [\<lparr>recipient_address = ''bcrt1qdest'', recipient_amount = 10000\<rparr>] (Some 5) None
   = ([GetUTXOs ''bcrt1qdemo''], Inl ''fetch failed'')"
  by (simp add: estimate_btc_transfer_fee_def demo_find_account demo_unreachable_def demo_upstream_def
        demo_account_def nonzero_def eval_run)

subsection \<open>The import resolver\<close>

lemma resolveEach_preserves:
  fixes P :: "resolver \<Rightarrow> bool"
  assumes nested: "\<And>st content. P st \<Longrightarrow> P (snd (resolveImports n fetch st content))"
    and download: "\<And>st p. P st \<Longrightarrow> p \<noteq> [] \<Longrightarrow> map_of (sources st) p = None
          \<Longrightarrow> startsWith p ''@openzeppelin/''
          \<Longrightarrow> P (st\<lparr>downloads := downloads st
                         @ [openzeppelin_base @ replace_first p ''@openzeppelin/'' []]\<rparr>)"
    and store: "\<And>st p src. P st \<Longrightarrow> p \<noteq> [] \<Longrightarrow> map_of (sources st) p = None
          \<Longrightarrow> startsWith p ''@openzeppelin/''
          \<Longrightarrow> P (st\<lparr>downloads := downloads st
                         @ [openzeppelin_base @ replace_first p ''@openzeppelin/'' []],
                       sources := sources st @ [(p, src)]\<rparr>)"
  shows "P st \<Longrightarrow> P (snd (resolveEach n fetch st paths))"
proof (induction paths arbitrary: st)
  case Nil
  then show ?case by simp
next
  case (Cons importPath rest)
  show ?case
  proof (cases "importPath \<noteq> [] \<and> map_of (sources st) importPath = None
                 \<and> startsWith importPath ''@openzeppelin/''")
    case False
    then have "resolveEach n fetch st (importPath # rest) = resolveEach n fetch st rest"
      by auto
    with Cons show ?thesis by simp
  next
    case True
    let ?url = "openzeppelin_base @ replace_first importPath ''@openzeppelin/'' []"
    let ?st1 = "st\<lparr>downloads := downloads st @ [?url]\<rparr>"
    have p1: "P ?st1" using download[OF Cons.prems] True by blast
    show ?thesis
    proof (cases "fetch (length (downloads st)) ?url")
      case (Inl e)
      with True p1 show ?thesis by (simp add: Let_def)
    next
      case (Inr res)
      show ?thesis
      proof (cases "res_ok res")
        case False
        with True Inr have "resolveEach n fetch st (importPath # rest) = resolveEach n fetch ?st1 rest"
          by (simp add: Let_def)
        with Cons.IH[OF p1] show ?thesis by simp
      next
        case ok: True
        show ?thesis
        proof (cases "res_text res")
          case (Inl e)
          with True p1 Inr ok show ?thesis by (simp add: Let_def)
        next
          case body: (Inr importedSource)
          let ?st2 = "?st1\<lparr>sources := sources ?st1 @ [(importPath, importedSource)]\<rparr>"
          have p2: "P ?st2" using store[OF Cons.prems, of importPath importedSource] True by simp
          obtain status st3 where r: "resolveImports n fetch ?st2 importedSource = (status, st3)"
            by (cases "resolveImports n fetch ?st2 importedSource") blast
          have p3: "P st3" using nested[OF p2, of importedSource] r by simp
          show ?thesis
          proof (cases status)
            case Completed
            with True Inr ok body r
            have "resolveEach n fetch st (importPath # rest) = resolveEach n fetch st3 rest"
              by (simp add: Let_def)
            with Cons.IH[OF p3] show ?thesis by simp
          next
            case (Raised e)
            with True Inr ok body r
            have "resolveEach n fetch st (importPath # rest) = (Raised e, st3)"
              by (simp add: Let_def)
            with p3 show ?thesis by simp
          next
            case Unfinished
            with True Inr ok body r
            have "resolveEach n fetch st (importPath # rest) = (Unfinished, st3)"
              by (simp add: Let_def)
            with p3 show ?thesis by simp
          qed
        qed
      qed
    qed
  qed
qed

lemma resolveImports_preserves:
  fixes P :: "resolver \<Rightarrow> bool"
  assumes download: "\<And>st p. P st \<Longrightarrow> p \<noteq> [] \<Longrightarrow> map_of (sources st) p = None
          \<Longrightarrow> startsWith p ''@openzeppelin/''
          \<Longrightarrow> P (st\<lparr>downloads := downloads st
                         @ [openzeppelin_base @ replace_first p ''@openzeppelin/'' []]\<rparr>)"
    and store: "\<And>st p src. P st \<Longrightarrow> p \<noteq> [] \<Longrightarrow> map_of (sources st) p = None
          \<Longrightarrow> startsWith p ''@openzeppelin/''
          \<Longrightarrow> P (st\<lparr>downloads := downloads st
                         @ [openzeppelin_base @ replace_first p ''@openzeppelin/'' []],
                       sources := sources st @ [(p, src)]\<rparr>)"
  shows "P st \<Longrightarrow> P (snd (resolveImports n fetch st content))"
proof (induction n arbitrary: st content)
  case 0
  then show ?case by simp
next
  case (Suc n)
  have "P (snd (resolveEach n fetch st (import_matches content)))"
    using resolveEach_preserves[of P n fetch st "import_matches content"] Suc download store
    by blast
  then show ?case by simp
qed


lemma replace_first_prefix:
  "startsWith p pat \<Longrightarrow> p \<noteq> [] \<Longrightarrow> replace_first p pat rep = rep @ drop (length pat) p"
  by (cases p) simp_all

text \<open>
  C9, as the code has it.  The resolver has no cap on nesting or on downloaded characters.
  What it keeps is this: every URL it requests is the OpenZeppelin base URL followed by an
  import path that starts with \<open>@openzeppelin/\<close>, with that prefix taken off; every entry
  of the table other than the input contract is stored under a path that starts with
  \<open>@openzeppelin/\<close>; the paths of the table are distinct; and the table never has more
  entries than one plus the number of requests made.
\<close>

theorem import_resolver_only_new_openzeppelin_paths:
  "resolveImports fuel fetch \<lparr>sources = [(''Contract.sol'', sourceCode)], downloads = []\<rparr> sourceCode
     = (status, st)
   \<longrightarrow> hd (sources st) = (''Contract.sol'', sourceCode)
       \<and> (\<forall>entry \<in> set (tl (sources st)). startsWith (fst entry) ''@openzeppelin/'')
       \<and> distinct (map fst (sources st))
       \<and> (\<forall>url \<in> set (downloads st).
             \<exists>importPath. startsWith importPath ''@openzeppelin/''
               \<and> url = openzeppelin_base @ replace_first importPath ''@openzeppelin/'' []
               \<and> url = openzeppelin_base @ drop (length ''@openzeppelin/'') importPath)
       \<and> length (sources st) \<le> Suc (length (downloads st))"
proof
  define requested where "requested = (\<lambda>url.
             \<exists>importPath. startsWith importPath ''@openzeppelin/''
               \<and> url = openzeppelin_base @ replace_first importPath ''@openzeppelin/'' []
               \<and> url = openzeppelin_base @ drop (length ''@openzeppelin/'') importPath)"
  define stored where "stored = (\<lambda>entry :: string \<times> string. startsWith (fst entry) ''@openzeppelin/'')"
  let ?P = "\<lambda>st :: resolver. sources st \<noteq> []
       \<and> hd (sources st) = (''Contract.sol'', sourceCode)
       \<and> (\<forall>entry \<in> set (tl (sources st)). stored entry)
       \<and> distinct (map fst (sources st))
       \<and> (\<forall>url \<in> set (downloads st). requested url)
       \<and> length (sources st) \<le> Suc (length (downloads st))"
  let ?st0 = "\<lparr>sources = [(''Contract.sol'', sourceCode)], downloads = []\<rparr>"
  assume r: "resolveImports fuel fetch ?st0 sourceCode = (status, st)"
  have u: "requested (openzeppelin_base @ replace_first p ''@openzeppelin/'' [])"
    if "p \<noteq> []" "startsWith p ''@openzeppelin/''" for p
    unfolding requested_def
    using replace_first_prefix[OF that(2,1), of "[]"] that(2) by (intro exI[of _ p]) simp
  have v: "stored (p, src)" if "startsWith p ''@openzeppelin/''" for p src
    using that by (simp add: stored_def)
  have d: "?P (st\<lparr>downloads := downloads st
                         @ [openzeppelin_base @ replace_first p ''@openzeppelin/'' []]\<rparr>)"
    if "?P st" "p \<noteq> []" "startsWith p ''@openzeppelin/''" for st :: resolver and p
    using that(1) u[OF that(2,3)] by auto
  have s: "?P (st\<lparr>downloads := downloads st
                         @ [openzeppelin_base @ replace_first p ''@openzeppelin/'' []],
                       sources := sources st @ [(p, src)]\<rparr>)"
    if "?P st" "p \<noteq> []" "map_of (sources st) p = None" "startsWith p ''@openzeppelin/''"
    for st :: resolver and p src
  proof -
    from that(3) have "p \<notin> fst ` set (sources st)" by (simp add: map_of_eq_None_iff)
    with that(1) u[OF that(2,4)] v[OF that(4), of src] show ?thesis by auto
  qed
  have "?P ?st0" by simp
  then have "?P (snd (resolveImports fuel fetch ?st0 sourceCode))"
  proof (rule resolveImports_preserves[where P="?P", rotated 2])
    fix st :: resolver and p
    assume "?P st" "p \<noteq> []" "map_of (sources st) p = None" "startsWith p ''@openzeppelin/''"
    then show "?P (st\<lparr>downloads := downloads st
                         @ [openzeppelin_base @ replace_first p ''@openzeppelin/'' []]\<rparr>)"
      using d[of st p] by blast
  next
    fix st :: resolver and p src
    assume "?P st" "p \<noteq> []" "map_of (sources st) p = None" "startsWith p ''@openzeppelin/''"
    then show "?P (st\<lparr>downloads := downloads st
                         @ [openzeppelin_base @ replace_first p ''@openzeppelin/'' []],
                       sources := sources st @ [(p, src)]\<rparr>)"
      using s[of st p src] by blast
  qed
  with r have "?P st" by simp
  then show "hd (sources st) = (''Contract.sol'', sourceCode)
       \<and> (\<forall>entry \<in> set (tl (sources st)). startsWith (fst entry) ''@openzeppelin/'')
       \<and> distinct (map fst (sources st))
       \<and> (\<forall>url \<in> set (downloads st).
             \<exists>importPath. startsWith importPath ''@openzeppelin/''
               \<and> url = openzeppelin_base @ replace_first importPath ''@openzeppelin/'' []
               \<and> url = openzeppelin_base @ drop (length ''@openzeppelin/'') importPath)
       \<and> length (sources st) \<le> Suc (length (downloads st))"
    unfolding requested_def stored_def by blast
qed

theorem import_resolver_only_new_openzeppelin_paths_witness:
  "resolveImports (Suc (Suc 0)) (chain_remote 0)
       \<lparr>sources = [(''Contract.sol'', chain_link (Suc 0))], downloads = []\<rparr> (chain_link (Suc 0))
     = (Completed,
        \<lparr>sources = [(''Contract.sol'', chain_link (Suc 0)), (''@openzeppelin/a'', [])],
         downloads = [openzeppelin_base @ ''a'']\<rparr>)
   \<and> startsWith ''@openzeppelin/a'' ''@openzeppelin/''
   \<and> distinct [''Contract.sol'', ''@openzeppelin/a'']
   \<and> (\<exists>importPath. startsWith importPath ''@openzeppelin/''
         \<and> openzeppelin_base @ ''a'' = openzeppelin_base @ replace_first importPath ''@openzeppelin/'' []
         \<and> openzeppelin_base @ ''a'' = openzeppelin_base @ drop (length ''@openzeppelin/'') importPath)
   \<and> length [(''Contract.sol'', chain_link (Suc 0)), (''@openzeppelin/a'', [])]
        \<le> Suc (length [openzeppelin_base @ ''a''])"
proof -
  let ?initial = "\<lparr>sources = [(''Contract.sol'', chain_link (Suc 0))], downloads = []\<rparr>"
  let ?final = "\<lparr>sources = [(''Contract.sol'', chain_link (Suc 0)), (''@openzeppelin/a'', [])],
              downloads = [openzeppelin_base @ ''a'']\<rparr>"
  have m: "import_matches (chain_link (Suc 0)) = [''@openzeppelin/a'']"
  proof -
    have "chain_link (Suc 0) = CHR ''i'' # CHR ''m'' # CHR ''p'' # CHR ''o'' # CHR ''r'' # CHR ''t''
            # CHR '' '' # CHR 0x22 # ''@openzeppelin/a'' @ CHR 0x22 # []"
      by (simp add: chain_link_def chain_path_def)
    moreover have "match_import (CHR ''i'' # CHR ''m'' # CHR ''p'' # CHR ''o'' # CHR ''r'' # CHR ''t''
            # CHR '' '' # CHR 0x22 # ''@openzeppelin/a'' @ CHR 0x22 # []) = Some (''@openzeppelin/a'', [])"
      by (simp add: match_import_def startsWith_def is_quote_def is_space_def space_width_def
            wide_spaces_def Let_def)
    ultimately show ?thesis by simp
  qed
  have r: "resolveImports (Suc (Suc 0)) (chain_remote 0) ?initial (chain_link (Suc 0)) = (Completed, ?final)"
    by (simp add: m startsWith_def chain_remote_def Let_def)
  from import_resolver_only_new_openzeppelin_paths
         [where fuel = "Suc (Suc 0)" and fetch = "chain_remote 0" and sourceCode = "chain_link (Suc 0)"
            and status = Completed and st = ?final] r
  have "hd (sources ?final) = (''Contract.sol'', chain_link (Suc 0))
       \<and> (\<forall>entry \<in> set (tl (sources ?final)). startsWith (fst entry) ''@openzeppelin/'')
       \<and> distinct (map fst (sources ?final))
       \<and> (\<forall>url \<in> set (downloads ?final).
             \<exists>importPath. startsWith importPath ''@openzeppelin/''
               \<and> url = openzeppelin_base @ replace_first importPath ''@openzeppelin/'' []
               \<and> url = openzeppelin_base @ drop (length ''@openzeppelin/'') importPath)
       \<and> length (sources ?final) \<le> Suc (length (downloads ?final))"
    by (rule mp)
  with r show ?thesis by simp
qed

lemma chain_path_plain: "chain_path j \<noteq> []" "\<forall>c \<in> set (chain_path j). \<not> is_quote c"
  by (auto simp: chain_path_def is_quote_def)

lemma skip_one_space: "space_width (CHR 0x22 # rest) = 0" "space_width (CHR '' '' # rest) = 1"
  by (simp_all add: space_width_def is_space_def wide_spaces_def)

lemma skip_quoted: "skip_spaces (CHR '' '' # CHR 0x22 # rest) = CHR 0x22 # rest"
  by (simp add: skip_one_space)

lemma match_import_quoted:
  assumes "p \<noteq> []" and "\<forall>c \<in> set p. \<not> is_quote c"
  shows "match_import (CHR ''i'' # CHR ''m'' # CHR ''p'' # CHR ''o'' # CHR ''r'' # CHR ''t'' # CHR '' ''
                         # CHR 0x22 # p @ CHR 0x22 # rest) = Some (p, rest)"
proof -
  have q: "is_quote (CHR 0x22)"
    by (simp_all add: is_quote_def)
  have t: "takeWhile (\<lambda>c. \<not> is_quote c) (p @ CHR 0x22 # rest) = p"
    using assms(2) q(1) by (simp add: takeWhile_append2)
  have d: "dropWhile (\<lambda>c. \<not> is_quote c) (p @ CHR 0x22 # rest) = CHR 0x22 # rest"
    using assms(2) q(1) by (simp add: dropWhile_append2)
  show ?thesis
    using assms(1) q t d
    by (simp add: match_import_def startsWith_def Let_def skip_quoted skip_one_space
          del: skip_spaces.simps)
qed

lemma import_matches_link: "import_matches (chain_link j) = [chain_path j]"
proof -
  have "chain_link j = CHR ''i'' # CHR ''m'' # CHR ''p'' # CHR ''o'' # CHR ''r'' # CHR ''t'' # CHR '' ''
                         # CHR 0x22 # chain_path j @ CHR 0x22 # []"
    by (simp add: chain_link_def)
  then show ?thesis
    using match_import_quoted[OF chain_path_plain, of j "[]"] by simp
qed


lemma chain_path_length: "length (chain_path j) = 14 + j"
  by (simp add: chain_path_def)

lemma chain_path_openzeppelin: "startsWith (chain_path j) ''@openzeppelin/''"
  by (simp add: chain_path_def startsWith_def)

lemma chain_link_length: "0 < length (chain_link j)"
  by (simp add: chain_link_def)

text \<open>One step along the chain: the resolver downloads the path of the current link,
  stores what the remote returned and goes on with that text, one level deeper.\<close>

lemma chain_unfold:
  fixes st :: resolver
  assumes "length (downloads st) = k"
    and "\<forall>key \<in> fst ` set (sources st). length key < 15 + k"
    and "sources st \<noteq> []"
  shows "\<exists>st2 :: resolver.
           resolveImports (Suc n) (chain_remote N) st (chain_link (Suc k))
             = resolveImports n (chain_remote N) st2 (if k < N then chain_link (k + 2) else [])
         \<and> length (downloads st2) = Suc k
         \<and> (\<forall>key \<in> fst ` set (sources st2). length key < 15 + Suc k)
         \<and> sources st2 \<noteq> []
         \<and> fetched_bytes st2
             = fetched_bytes st + length (if k < N then chain_link (k + 2) else [])"
proof -
  let ?p = "chain_path (Suc k)"
  let ?body = "if k < N then chain_link (k + 2) else []"
  let ?st2 = "st\<lparr>downloads := downloads st
                         @ [openzeppelin_base @ replace_first ?p ''@openzeppelin/'' []],
                   sources := sources st @ [(?p, ?body)]\<rparr>"
  have "?p \<notin> fst ` set (sources st)"
    using assms(2) chain_path_length[of "Suc k"] by auto
  then have none: "map_of (sources st) ?p = None" by (simp add: map_of_eq_None_iff)
  have f: "chain_remote N (length (downloads st)) u = Inr \<lparr>res_ok = True, res_text = Inr ?body\<rparr>" for u
    using assms(1) by (simp add: chain_remote_def)
  obtain status st3 where r: "resolveImports n (chain_remote N) ?st2 ?body = (status, st3)"
    by (cases "resolveImports n (chain_remote N) ?st2 ?body") blast
  have "resolveEach n (chain_remote N) st [?p] = (status, st3)"
    using none chain_path_plain(1)[of "Suc k"] chain_path_openzeppelin[of "Suc k"] f r
    by (cases status) (simp_all add: Let_def)
  then have a: "resolveImports (Suc n) (chain_remote N) st (chain_link (Suc k))
             = resolveImports n (chain_remote N) ?st2 ?body"
    using r by (simp add: import_matches_link)
  have b: "length (downloads ?st2) = Suc k" using assms(1) by simp
  have c: "\<forall>key \<in> fst ` set (sources ?st2). length key < 15 + Suc k"
    using assms(2) chain_path_length[of "Suc k"] by auto
  have d: "sources ?st2 \<noteq> []" by simp
  have e: "fetched_bytes ?st2 = fetched_bytes st + length ?body"
    using assms(3) by (simp add: fetched_bytes_def)
  from a b c d e show ?thesis by blast
qed

lemma chain_completes:
  fixes st :: resolver
  assumes "d = N - k" and "k \<le> N"
    and "length (downloads st) = k"
    and "\<forall>key \<in> fst ` set (sources st). length key < 15 + k"
    and "sources st \<noteq> []"
  shows "\<exists>st' :: resolver.
           resolveImports (Suc (Suc d)) (chain_remote N) st (chain_link (Suc k)) = (Completed, st')
         \<and> length (downloads st') = Suc N
         \<and> fetched_bytes st + d \<le> fetched_bytes st'"
  using assms
proof (induction d arbitrary: k st)
  case 0
  then have kN: "k = N" by simp
  from chain_unfold[OF "0.prems"(3,4,5), of "Suc 0" N] kN
  obtain st2 :: resolver where s:
    "resolveImports (Suc (Suc 0)) (chain_remote N) st (chain_link (Suc k))
       = resolveImports (Suc 0) (chain_remote N) st2 []"
    "length (downloads st2) = Suc k"
    "fetched_bytes st2 = fetched_bytes st"
    by (auto simp del: resolveImports.simps resolveEach.simps)
  have "resolveImports (Suc 0) (chain_remote N) st2 [] = (Completed, st2)" by simp
  with s kN show ?case
    by (intro exI[of _ st2]) (simp del: resolveImports.simps resolveEach.simps)
next
  case (Suc d)
  then have kN: "k < N" and d: "d = N - Suc k" by simp_all
  from chain_unfold[OF Suc.prems(3,4,5), of "Suc (Suc d)" N] kN
  obtain st2 :: resolver where s:
    "resolveImports (Suc (Suc (Suc d))) (chain_remote N) st (chain_link (Suc k))
       = resolveImports (Suc (Suc d)) (chain_remote N) st2 (chain_link (Suc (Suc k)))"
    "length (downloads st2) = Suc k"
    "\<forall>key \<in> fst ` set (sources st2). length key < 15 + Suc k"
    "sources st2 \<noteq> []"
    "fetched_bytes st2 = fetched_bytes st + length (chain_link (k + 2))"
    by (auto simp del: resolveImports.simps resolveEach.simps)
  from kN have le: "Suc k \<le> N" by simp
  from Suc.IH[OF d le s(2,3,4)]
  obtain st' :: resolver where t:
    "resolveImports (Suc (Suc d)) (chain_remote N) st2 (chain_link (Suc (Suc k))) = (Completed, st')"
    "length (downloads st') = Suc N"
    "fetched_bytes st2 + d \<le> fetched_bytes st'"
    by blast
  have "0 < length (chain_link (k + 2))" by (rule chain_link_length)
  with t(3) s(5) have "fetched_bytes st + Suc d \<le> fetched_bytes st'"
    by linarith
  with s(1) t(1,2) show ?case
    by (intro exI[of _ st']) (simp del: resolveImports.simps resolveEach.simps)
qed

lemma chain_unfinished:
  fixes st :: resolver
  assumes "m \<le> N - k + 1" and "k \<le> N"
    and "length (downloads st) = k"
    and "\<forall>key \<in> fst ` set (sources st). length key < 15 + k"
    and "sources st \<noteq> []"
  shows "fst (resolveImports m (chain_remote N) st (chain_link (Suc k))) = Unfinished"
  using assms
proof (induction m arbitrary: k st)
  case 0
  then show ?case by simp
next
  case (Suc m)
  from chain_unfold[OF Suc.prems(3,4,5), of m N]
  obtain st2 :: resolver where s:
    "resolveImports (Suc m) (chain_remote N) st (chain_link (Suc k))
       = resolveImports m (chain_remote N) st2 (if k < N then chain_link (k + 2) else [])"
    "length (downloads st2) = Suc k"
    "\<forall>key \<in> fst ` set (sources st2). length key < 15 + Suc k"
    "sources st2 \<noteq> []"
    by (auto simp del: resolveImports.simps resolveEach.simps)
  show ?case
  proof (cases "k < N")
    case True
    with Suc.prems(1) have "m \<le> N - Suc k + 1" "Suc k \<le> N" by simp_all
    from Suc.IH[OF this s(2,3,4)] s(1) True show ?thesis
      by (simp del: resolveImports.simps resolveEach.simps)
  next
    case False
    with Suc.prems(1,2) have "m = 0" by simp
    then have "fst (resolveImports m (chain_remote N) st2 []) = Unfinished" by simp
    with s(1) False show ?thesis by (simp del: resolveImports.simps resolveEach.simps)
  qed
qed

text \<open>
  C9, as stated, fails: for every cap there are a remote and a source on which the resolver
  is not done within \<open>cap\<close> nested calls, and on which it completes after more than \<open>cap\<close>
  downloads that brought in more than \<open>cap\<close> characters.
\<close>

theorem import_resolver_has_no_cap:
  "\<forall>cap. \<exists>fetch sourceCode fuel st.
      fst (resolveImports cap fetch \<lparr>sources = [(''Contract.sol'', sourceCode)], downloads = []\<rparr>
             sourceCode) = Unfinished
    \<and> resolveImports fuel fetch \<lparr>sources = [(''Contract.sol'', sourceCode)], downloads = []\<rparr>
             sourceCode = (Completed, st)
    \<and> cap < length (downloads st)
    \<and> cap < fetched_bytes st"
proof
  fix cap :: nat
  let ?N = "Suc cap"
  let ?st0 = "\<lparr>sources = [(''Contract.sol'', chain_link (Suc 0))], downloads = []\<rparr>"
  have j: "length (downloads ?st0) = 0"
    "\<forall>key \<in> fst ` set (sources ?st0). length key < 15 + 0"
    "sources ?st0 \<noteq> []"
    by simp_all
  have u: "fst (resolveImports cap (chain_remote ?N) ?st0 (chain_link (Suc 0))) = Unfinished"
    by (rule chain_unfinished[OF _ _ j]) simp_all
  have "?N = ?N - 0" "0 \<le> ?N" by simp_all
  from chain_completes[OF this j]
  obtain st' :: resolver where c:
    "resolveImports (Suc (Suc ?N)) (chain_remote ?N) ?st0 (chain_link (Suc 0)) = (Completed, st')"
    "length (downloads st') = Suc ?N"
    "fetched_bytes ?st0 + ?N \<le> fetched_bytes st'"
    by blast
  from c(2,3) have "cap < length (downloads st')" "cap < fetched_bytes st'" by simp_all
  with u c(1) show "\<exists>fetch sourceCode fuel st.
      fst (resolveImports cap fetch \<lparr>sources = [(''Contract.sol'', sourceCode)], downloads = []\<rparr>
             sourceCode) = Unfinished
    \<and> resolveImports fuel fetch \<lparr>sources = [(''Contract.sol'', sourceCode)], downloads = []\<rparr>
             sourceCode = (Completed, st)
    \<and> cap < length (downloads st)
    \<and> cap < fetched_bytes st"
    by (intro exI[of _ "chain_remote ?N"] exI[of _ "chain_link (Suc 0)"] exI[of _ "Suc (Suc ?N)"]
          exI[of _ st']) (simp del: resolveImports.simps resolveEach.simps)
qed

subsection \<open>Where the approval gate stands\<close>

lemma fst_attempt: "fst (attempt out k) = (case out of Inl e \<Rightarrow> [] | Inr v \<Rightarrow> fst (k v))"
  by (cases out) (simp_all add: attempt_Inr attempt_Inl)

lemma sign_gate_order:
  assumes "ev \<in> set (fst (request_psbt_signature cfg up psbt address extra))" and "sensitive ev"
  shows "\<exists>send c. sendRequest_of extra = Some send \<and> send sign_elicitation = Inr c
           \<and> truthy c \<and> truthy (get_prop c ''approved'')
           \<and> fst (request_psbt_signature cfg up psbt address extra)
               = [ElicitationCreate sign_elicitation, ev]"
proof -
  from assms have "list_ex sensitive (fst (request_psbt_signature cfg up psbt address extra))"
    unfolding list_ex_iff by blast
  from sign_gate_passed[OF this] obtain send c where g:
    "sendRequest_of extra = Some send" "send sign_elicitation = Inr c"
    "truthy c" "truthy (get_prop c ''approved'')" by blast
  have t: "fst (request_psbt_signature cfg up psbt address extra)
        = ElicitationCreate sign_elicitation
          # (case find_account cfg up address of
               Inr (Some acc) \<Rightarrow> [SignPSBT \<lparr>sign_psbt = psbt, signInputs = [(account_address acc, [0])],
                                  sign_publish = False\<rparr>]
             | _ \<Rightarrow> [])"
    using g
    by (cases "find_account cfg up address")
       (auto simp: request_psbt_signature_def fst_try_return await_Inr attempt_Inr attempt_Inl
          fst_prepend fst_throw fst_return fst_await Let_def split: option.splits sum.splits)
  with assms show ?thesis
    using g by (auto split: sum.splits option.splits)
qed

lemma broadcast_gate_order:
  assumes "ev \<in> set (fst (request_transaction_broadcast cfg up txHex extra))" and "sensitive ev"
  shows "\<exists>send c. sendRequest_of extra = Some send \<and> send broadcast_elicitation = Inr c
           \<and> truthy c \<and> truthy (get_prop c ''confirm'')
           \<and> fst (request_transaction_broadcast cfg up txHex extra)
               = [ElicitationCreate broadcast_elicitation, ev]"
proof -
  from assms have "list_ex sensitive (fst (request_transaction_broadcast cfg up txHex extra))"
    unfolding list_ex_iff by blast
  from broadcast_gate_passed[OF this] obtain send c where g:
    "sendRequest_of extra = Some send" "send broadcast_elicitation = Inr c"
    "truthy c" "truthy (get_prop c ''confirm'')" by blast
  have t: "fst (request_transaction_broadcast cfg up txHex extra)
        = [ElicitationCreate broadcast_elicitation, BroadcastTransaction txHex]"
    using g
    by (cases "broadcastTransaction up txHex")
       (auto simp: request_transaction_broadcast_def fst_try_return await_Inr await_Inl fst_attempt
          fst_prepend fst_return fst_await Let_def split: option.splits sum.splits)
  with assms show ?thesis
    using g by auto
qed

lemma truthy_not_missing:
  "truthy v \<Longrightarrow> v \<noteq> JUndefined \<and> v \<noteq> JNull \<and> v \<noteq> JBool False"
  by (cases v) simp_all

lemma deploy_compiled_no_elicitation:
  "ElicitationCreate el \<notin> set (fst (deploy_compiled cfg up sourceCode contractName args feeRate srcs))"
  by (auto simp: deploy_compiled_def in_run in_case_list in_case_option Let_def sendBTCTransactions_def
       dest!: in_auto_verify)

lemma deploy_source_no_elicitation:
  assumes "deploy_contract_source fuel cfg up sourceCode contractName args feeRate = Some r"
  shows "ElicitationCreate el \<notin> set (fst r)"
  using deploy_source_cases[OF assms] deploy_compiled_no_elicitation by auto

lemma no_elicitation_iff: "\<not> list_ex is_elicitation t \<longleftrightarrow> (\<forall>el. ElicitationCreate el \<notin> set t)"
proof
  assume a: "\<not> list_ex is_elicitation t"
  show "\<forall>el. ElicitationCreate el \<notin> set t"
  proof
    fix el
    show "ElicitationCreate el \<notin> set t"
    proof
      assume "ElicitationCreate el \<in> set t"
      then have "list_ex is_elicitation t" unfolding list_ex_iff by (rule bexI[rotated]) simp
      with a show False by blast
    qed
  qed
next
  assume a: "\<forall>el. ElicitationCreate el \<notin> set t"
  show "\<not> list_ex is_elicitation t"
  proof
    assume "list_ex is_elicitation t"
    then obtain ev where e: "ev \<in> set t" "is_elicitation ev" unfolding list_ex_iff by blast
    from e(2) obtain el where "ev = ElicitationCreate el" by (cases ev) simp_all
    with e(1) a show False by blast
  qed
qed

text \<open>
  C1, as the code has it.  The gate stands before the signing or broadcast call in
  \<open>request-psbt-signature\<close> and \<open>request-transaction-broadcast\<close>: a run of these that makes
  the call consists of the elicitation request followed by that call, the channel exists,
  and its answer is neither missing nor without the field nor \<open>false\<close> in the field.
  \<open>broadcast-transaction\<close> makes its broadcast as its only call, and \<open>call-contract\<close> and
  \<open>deploy-contract-source\<close> never send an elicitation request.
\<close>

theorem approval_gate_only_in_request_tools:
  "(\<forall>ev \<in> set (fst (request_psbt_signature cfg up psbt address extra)). sensitive ev \<longrightarrow>
      (\<exists>send c. sendRequest_of extra = Some send \<and> send sign_elicitation = Inr c
         \<and> c \<noteq> JUndefined \<and> c \<noteq> JNull
         \<and> get_prop c ''approved'' \<noteq> JUndefined \<and> get_prop c ''approved'' \<noteq> JNull
         \<and> get_prop c ''approved'' \<noteq> JBool False
         \<and> fst (request_psbt_signature cfg up psbt address extra)
             = [ElicitationCreate sign_elicitation, ev]))
   \<and> (\<forall>ev \<in> set (fst (request_transaction_broadcast cfg up txHex extra)). sensitive ev \<longrightarrow>
      (\<exists>send c. sendRequest_of extra = Some send \<and> send broadcast_elicitation = Inr c
         \<and> c \<noteq> JUndefined \<and> c \<noteq> JNull
         \<and> get_prop c ''confirm'' \<noteq> JUndefined \<and> get_prop c ''confirm'' \<noteq> JNull
         \<and> get_prop c ''confirm'' \<noteq> JBool False
         \<and> fst (request_transaction_broadcast cfg up txHex extra)
             = [ElicitationCreate broadcast_elicitation, ev]))
   \<and> fst (broadcast_transaction cfg up txHex) = [BroadcastTransaction txHex]
   \<and> \<not> list_ex is_elicitation
         (fst (call_contract cfg up contractAddress abi functionName args val feeRate))
   \<and> (\<forall>r. deploy_contract_source fuel cfg up sourceCode contractName ctorArgs deployFeeRate = Some r
          \<longrightarrow> \<not> list_ex is_elicitation (fst r))"
proof (intro conjI ballI impI allI)
  fix ev
  assume "ev \<in> set (fst (request_psbt_signature cfg up psbt address extra))" "sensitive ev"
  from sign_gate_order[OF this] obtain send c where g:
    "sendRequest_of extra = Some send" "send sign_elicitation = Inr c"
    "truthy c" "truthy (get_prop c ''approved'')"
    "fst (request_psbt_signature cfg up psbt address extra) = [ElicitationCreate sign_elicitation, ev]"
    by blast
  from truthy_not_missing[OF g(3)] truthy_not_missing[OF g(4)] g(1,2,5)
  show "\<exists>send c. sendRequest_of extra = Some send \<and> send sign_elicitation = Inr c
         \<and> c \<noteq> JUndefined \<and> c \<noteq> JNull
         \<and> get_prop c ''approved'' \<noteq> JUndefined \<and> get_prop c ''approved'' \<noteq> JNull
         \<and> get_prop c ''approved'' \<noteq> JBool False
         \<and> fst (request_psbt_signature cfg up psbt address extra)
             = [ElicitationCreate sign_elicitation, ev]"
    by blast
next
  fix ev
  assume "ev \<in> set (fst (request_transaction_broadcast cfg up txHex extra))" "sensitive ev"
  from broadcast_gate_order[OF this] obtain send c where g:
    "sendRequest_of extra = Some send" "send broadcast_elicitation = Inr c"
    "truthy c" "truthy (get_prop c ''confirm'')"
    "fst (request_transaction_broadcast cfg up txHex extra)
       = [ElicitationCreate broadcast_elicitation, ev]"
    by blast
  from truthy_not_missing[OF g(3)] truthy_not_missing[OF g(4)] g(1,2,5)
  show "\<exists>send c. sendRequest_of extra = Some send \<and> send broadcast_elicitation = Inr c
         \<and> c \<noteq> JUndefined \<and> c \<noteq> JNull
         \<and> get_prop c ''confirm'' \<noteq> JUndefined \<and> get_prop c ''confirm'' \<noteq> JNull
         \<and> get_prop c ''confirm'' \<noteq> JBool False
         \<and> fst (request_transaction_broadcast cfg up txHex extra)
             = [ElicitationCreate broadcast_elicitation, ev]"
    by blast
next
  show "fst (broadcast_transaction cfg up txHex) = [BroadcastTransaction txHex]"
    by (cases "broadcastTransaction up txHex")
       (simp_all add: broadcast_transaction_def eval_run Let_def)
next
  show "\<not> list_ex is_elicitation
            (fst (call_contract cfg up contractAddress abi functionName args val feeRate))"
    using call_contract_no_elicitation no_elicitation_iff by blast
next
  fix r
  assume "deploy_contract_source fuel cfg up sourceCode contractName ctorArgs deployFeeRate = Some r"
  from deploy_source_no_elicitation[OF this] show "\<not> list_ex is_elicitation (fst r)"
    using no_elicitation_iff by blast
qed

theorem approval_gate_only_in_request_tools_witness:
  "SignPSBT \<lparr>sign_psbt = ''cHNidP8BAA=='', signInputs = [(''bcrt1qdemo'', [0])], sign_publish = False\<rparr>
     \<in> set (fst (request_psbt_signature demo_state demo_upstream ''cHNidP8BAA=='' None
                    (answers (JObj [(''approved'', JBool True)]))))
   \<and> fst (request_psbt_signature demo_state demo_upstream ''cHNidP8BAA=='' None
             (answers (JObj [(''approved'', JBool True)])))
       = [ElicitationCreate sign_elicitation,
          SignPSBT \<lparr>sign_psbt = ''cHNidP8BAA=='', signInputs = [(''bcrt1qdemo'', [0])],
                    sign_publish = False\<rparr>]
   \<and> BroadcastTransaction ''020000''
     \<in> set (fst (request_transaction_broadcast demo_state demo_upstream ''020000''
                    (answers (JObj [(''confirm'', JBool True)]))))
   \<and> fst (request_transaction_broadcast demo_state demo_upstream ''020000''
             (answers (JObj [(''confirm'', JBool True)])))
       = [ElicitationCreate broadcast_elicitation, BroadcastTransaction ''020000'']
   \<and> (\<exists>r. deploy_contract_source 1 demo_state demo_upstream ''contract Counter {}'' None None None
             = Some r
          \<and> \<not> list_ex is_elicitation (fst r))"
proof -
  let ?sign = "SignPSBT \<lparr>sign_psbt = ''cHNidP8BAA=='', signInputs = [(''bcrt1qdemo'', [0])],
                         sign_publish = False\<rparr>"
  let ?yes = "answers (JObj [(''approved'', JBool True)])"
  let ?go = "answers (JObj [(''confirm'', JBool True)])"
  have s: "?sign \<in> set (fst (request_psbt_signature demo_state demo_upstream ''cHNidP8BAA=='' None ?yes))"
    by (simp add: sign_run_approved)
  have b: "BroadcastTransaction ''020000''
        \<in> set (fst (request_transaction_broadcast demo_state demo_upstream ''020000'' ?go))"
    by (simp add: broadcast_run_approved)
  from demo_deploy[of demo_upstream] obtain r where
    d: "deploy_contract_source 1 demo_state demo_upstream ''contract Counter {}'' None None None = Some r"
    by blast
  note t1 = approval_gate_only_in_request_tools[where cfg = demo_state and up = demo_upstream
      and psbt = "''cHNidP8BAA==''" and address = None and extra = "?yes" and txHex = "''020000''"
      and fuel = 1 and sourceCode = "''contract Counter {}''" and contractName = None
      and ctorArgs = None and deployFeeRate = None]
  note t2 = approval_gate_only_in_request_tools[where cfg = demo_state and up = demo_upstream
      and psbt = "''cHNidP8BAA==''" and address = None and extra = "?go" and txHex = "''020000''"
      and fuel = 1 and sourceCode = "''contract Counter {}''" and contractName = None
      and ctorArgs = None and deployFeeRate = None]
  from t1 s have p1: "fst (request_psbt_signature demo_state demo_upstream ''cHNidP8BAA=='' None ?yes)
       = [ElicitationCreate sign_elicitation, ?sign]"
    by (metis sensitive.simps(1))
  from t2 b have p2: "fst (request_transaction_broadcast demo_state demo_upstream ''020000'' ?go)
       = [ElicitationCreate broadcast_elicitation, BroadcastTransaction ''020000'']"
    by (metis sensitive.simps(2))
  from t1 d have p3: "\<not> list_ex is_elicitation (fst r)" by blast
  from s b p1 p2 p3 d show ?thesis by blast
qed

text \<open>
  C1, as stated, fails: \<open>broadcast-transaction\<close> with \<open>{txHex: "020000"}\<close> broadcasts the
  transaction and reports success, and no elicitation request was made.
\<close>

theorem broadcast_transaction_has_no_gate:
  "broadcast_transaction demo_state demo_upstream ''020000''
     = ([BroadcastTransaction ''020000''],
        Inr \<lparr>content_text = check_mark @ '' Transaction broadcasted successfully!''
                 @ [CHR 0x0A, CHR 0x0A] @ ''Transaction ID: beef01'' @ [CHR 0x0A]
                 @ ''Explorer: https://mempool.regtest.midl.xyz/tx/beef01'',
              isError = False\<rparr>)
   \<and> sensitive (BroadcastTransaction ''020000'')
   \<and> \<not> list_ex is_elicitation [BroadcastTransaction ''020000'']"
  by (simp add: broadcast_transaction_def eval_run demo_upstream_def demo_state_def
        try_catch_def prepend_def return_def ok_result_def or_else_def nl_def Let_def)

end
